theory Spec2Isabelle
  imports Main "HOL-Library.Word"
begin

section \<open>JavaScript values\<close>

text \<open>
  A JavaScript string is a sequence of UTF-16 code units; \<open>length\<close>, \<open>substring\<close> and
  \<open>trim\<close> count and cut code units. String literals of the source are written
  \<open>lit ''...''\<close>.
\<close>

type_synonym jsstring = "16 word list"

definition lit :: "string \<Rightarrow> jsstring" where
  "lit s = map (\<lambda>c. of_nat (of_char c)) s"

text \<open>
  JSON values as \<open>JSON.parse\<close> yields them. A number is named by the text that
  \<open>String(n)\<close> gives for it, so that \<open>0\<close> and \<open>-0\<close> are both \<open>JNum (lit ''0'')\<close>; JSON has no
  \<open>NaN\<close>. An object lists its members; \<open>map_of\<close> reads a member. The value \<open>undefined\<close> is
  \<open>None\<close> of \<open>json option\<close>.
\<close>

datatype json =
    JNull
  | JBool bool
  | JNum jsstring
  | JStr jsstring
  | JArr "json list"
  | JObj "(jsstring \<times> json) list"

text \<open>What the source throws and catches. The texts of a \<open>TypeError\<close> and of the
  \<open>SyntaxError\<close> of \<open>JSON.parse\<close> are the engine's and are not modelled; \<open>ResponseError d\<close>
  is an axios error that carries \<open>error.response.data = d\<close>.\<close>

datatype exn =
    Error jsstring
  | TypeError
  | SyntaxError
  | ResponseError "json option"

text \<open>Truthiness: \<open>!v\<close> is \<open>\<not> truthy v\<close>.\<close>

definition truthy_str :: "jsstring option \<Rightarrow> bool" where
  "truthy_str v = (case v of None \<Rightarrow> False | Some s \<Rightarrow> s \<noteq> [])"

fun truthy :: "json option \<Rightarrow> bool" where
  "truthy None = False"
| "truthy (Some JNull) = False"
| "truthy (Some (JBool b)) = b"
| "truthy (Some (JNum r)) = (r \<noteq> lit ''0'')"
| "truthy (Some (JStr s)) = (s \<noteq> [])"
| "truthy (Some (JArr xs)) = True"
| "truthy (Some (JObj kvs)) = True"

text \<open>\<open>a || b\<close> on strings that may be undefined.\<close>

definition js_or :: "jsstring option \<Rightarrow> jsstring option \<Rightarrow> jsstring option" where
  "js_or a b = (if truthy_str a then a else b)"

text \<open>
  Reading a member \<open>v.name\<close>, for the names the source reads (\<open>candidates\<close>, \<open>content\<close>,
  \<open>parts\<close>, \<open>inlineData\<close>, \<open>thought\<close>, \<open>data\<close>, \<open>prompt\<close>), none of which a prototype
  defines: \<open>undefined\<close> and \<open>null\<close> throw, an object gives its member, every other value
  gives \<open>undefined\<close>.
\<close>

fun get_member :: "jsstring \<Rightarrow> json option \<Rightarrow> exn + json option" where
  "get_member name None = Inl TypeError"
| "get_member name (Some JNull) = Inl TypeError"
| "get_member name (Some (JObj kvs)) = Inr (map_of kvs name)"
| "get_member name (Some v) = Inr None"

text \<open>\<open>v[0]\<close> on a truthy value: the first element of an array, the first code unit of a
  string, the member \<open>"0"\<close> of an object.\<close>

fun index0 :: "json \<Rightarrow> json option" where
  "index0 (JArr xs) = (case xs of [] \<Rightarrow> None | x # _ \<Rightarrow> Some x)"
| "index0 (JStr s) = (case s of [] \<Rightarrow> None | c # _ \<Rightarrow> Some (JStr [c]))"
| "index0 (JObj kvs) = map_of kvs (lit ''0'')"
| "index0 v = None"

text \<open>
  The string conversion that a template literal and \<open>+\<close> on a string apply to a JSON
  value. An object is converted through its \<open>toString\<close>: without a member of that name it
  inherits the one of \<open>Object.prototype\<close> and gives \<open>[object Object]\<close>; a member of that
  name is a JSON value and cannot be called, and since \<open>valueOf\<close> gives no primitive
  either, the conversion throws a \<open>TypeError\<close>. An array joins the conversions of its
  elements with commas, \<open>null\<close> giving the empty string, and throws when one of them throws.
\<close>

fun join :: "jsstring list \<Rightarrow> jsstring" where
  "join [] = []"
| "join [x] = x"
| "join (x # y # ys) = x @ lit '','' @ join (y # ys)"

fun to_string :: "json \<Rightarrow> exn + jsstring"
  and elements :: "json list \<Rightarrow> exn + jsstring list" where
  "to_string JNull = Inr (lit ''null'')"
| "to_string (JBool b) = Inr (if b then lit ''true'' else lit ''false'')"
| "to_string (JNum r) = Inr r"
| "to_string (JStr s) = Inr s"
| "to_string (JArr xs) = (case elements xs of Inl e \<Rightarrow> Inl e | Inr ss \<Rightarrow> Inr (join ss))"
| "to_string (JObj kvs) =
     (if map_of kvs (lit ''toString'') \<noteq> None then Inl TypeError
      else Inr (lit ''[object Object]''))"
| "elements [] = Inr []"
| "elements (x # xs) =
     (case (if x = JNull then Inr [] else to_string x) of
        Inl e \<Rightarrow> Inl e
      | Inr s \<Rightarrow> (case elements xs of Inl e \<Rightarrow> Inl e | Inr ss \<Rightarrow> Inr (s # ss)))"

definition template :: "json option \<Rightarrow> exn + jsstring" where
  "template v = (case v of None \<Rightarrow> Inr (lit ''undefined'') | Some j \<Rightarrow> to_string j)"

text \<open>Sequencing of steps that may throw.\<close>

definition and_then :: "exn + 'a \<Rightarrow> ('a \<Rightarrow> exn + 'b) \<Rightarrow> exn + 'b" where
  "and_then m f = (case m of Inl e \<Rightarrow> Inl e | Inr x \<Rightarrow> f x)"

text \<open>\<open>s.substring(a, b)\<close> for non-negative integer arguments: both are clamped to the length
  and swapped when out of order.\<close>

definition substring :: "jsstring \<Rightarrow> nat \<Rightarrow> nat \<Rightarrow> jsstring" where
  "substring s a b =
     (let a' = min a (length s); b' = min b (length s);
          lo = min a' b'; hi = max a' b'
      in take (hi - lo) (drop lo s))"

section \<open>server/index.js\<close>

subsection \<open>Configuration\<close>

record env =
  LLM_API_KEY :: "jsstring option"
  NANO_BANANA_API_KEY :: "jsstring option"
  NODE_ENV :: "jsstring option"

definition API_KEY :: "env \<Rightarrow> jsstring option" where
  "API_KEY e = js_or (LLM_API_KEY e) (NANO_BANANA_API_KEY e)"

subsection \<open>Requests and responses\<close>

record upload_file =
  mimetype :: jsstring
  buffer :: "8 word list"

definition file_size :: "upload_file \<Rightarrow> nat" where
  "file_size f = length (buffer f)"

text \<open>
  The five presentation options, as strings in the state of the client and as JSON values
  in a request. \<open>req.body\<close> after \<open>express.json()\<close> is an object: of its members the routes
  read the seven below, each any JSON value or absent. \<open>req_file\<close> is the part named \<open>pdf\<close>
  of a multipart body.
\<close>

record 'a options =
  language :: "'a option"
  audience :: "'a option"
  focus :: "'a option"
  terms :: "'a option"
  styleNotes :: "'a option"

record json_body = "json options" +
  text' :: "json option"
  prompt :: "json option"

datatype http_method = GET | POST

record request =
  req_method :: http_method
  req_path :: jsstring
  req_body :: json_body
  req_file :: "upload_file option"

text \<open>The tail of an error text: nothing, \<open>error.message\<close>, or
  \<open>JSON.stringify(error.response.data)\<close>.\<close>

datatype error_detail =
    NoDetail
  | MessageOf exn
  | StringifyOf "json option"

text \<open>
  Response bodies: the objects passed to \<open>res.json\<close>, a member with value \<open>undefined\<close>
  being absent from the JSON sent; \<open>StaticFile\<close> is a file of the client build and
  \<open>Redirect\<close> the redirection to a directory of it; \<open>DefaultPage\<close> is Express's own reply,
  for an unrouted request (404) and for an error passed to \<open>next\<close> (500).
\<close>

datatype body =
    StatusJson bool bool
  | TextJson jsstring
  | PromptJson "json option"
  | ImageJson jsstring
  | ErrorJson jsstring error_detail
  | StaticFile jsstring
  | Redirect jsstring
  | DefaultPage

record response =
  status_code :: nat
  payload :: body

definition json_reply :: "body \<Rightarrow> response" where
  "json_reply b = \<lparr>status_code = 200, payload = b\<rparr>"

definition error_reply :: "nat \<Rightarrow> jsstring \<Rightarrow> error_detail \<Rightarrow> response" where
  "error_reply c msg d = \<lparr>status_code = c, payload = ErrorJson msg d\<rparr>"

subsection \<open>The services the server calls\<close>

text \<open>
  The calls that leave the process: \<open>pdfParse\<close> on the uploaded buffer,
  \<open>model.generateContent(systemPrompt)\<close> read through \<open>response.text()\<close>, and the
  \<open>axios.post\<close> to the image model, which answers with \<open>response.data\<close>. Each either
  returns or throws. \<open>JSON_parse\<close> is the runtime's \<open>JSON.parse\<close>, \<open>None\<close> when it throws.
  \<open>dist_file\<close> is what \<open>express.static\<close> finds in \<open>client/dist\<close> for a path: a file to send
  (for a directory path that ends in a slash, its \<open>index.html\<close>), a directory to redirect
  to, or nothing. \<open>on_rejection\<close> is the reply of the framework when the promise of an
  \<open>async\<close> handler rejects: Express 5 passes the error to its error handler, which
  answers with status 500; what an earlier version does is not fixed here.
  A handler returns its response together with the external calls it made, in order.
\<close>

datatype static_hit = File jsstring | Directory

record services =
  pdfParse :: "8 word list \<Rightarrow> exn + jsstring"
  generateContent :: "jsstring \<Rightarrow> exn + jsstring"
  image_post :: "jsstring option \<Rightarrow> json \<Rightarrow> exn + json option"
  JSON_parse :: "jsstring \<Rightarrow> json option"
  dist_file :: "jsstring \<Rightarrow> static_hit option"
  on_rejection :: "exn \<Rightarrow> response"

datatype ext_call =
    CallPdfParse "8 word list"
  | CallLLM jsstring
  | CallImage json

subsection \<open>Multer\<close>

text \<open>
  \<open>upload.single('pdf')\<close>: the file filter runs when the part starts, the size limit while
  it is read. A failure is passed to \<open>next\<close> and the route handler does not run.
\<close>

definition fileSize_limit :: nat where
  "fileSize_limit = 10 * 1024 * 1024"

definition upload_single :: "upload_file option \<Rightarrow> exn + upload_file option" where
  "upload_single f =
     (case f of
        None \<Rightarrow> Inr None
      | Some file \<Rightarrow>
          if mimetype file \<noteq> lit ''application/pdf''
          then Inl (Error (lit ''Only PDF files are allowed!''))
          else if fileSize_limit < file_size file
          then Inl (Error (lit ''File too large''))
          else Inr (Some file))"

subsection \<open>Routes\<close>

definition api_status :: "env \<Rightarrow> response" where
  "api_status e =
     json_reply (StatusJson (truthy_str (API_KEY e)) (truthy_str (API_KEY e)))"

definition api_upload ::
  "services \<Rightarrow> upload_file option \<Rightarrow> response \<times> ext_call list" where
  "api_upload svc f =
     (case upload_single f of
        Inl e \<Rightarrow> (\<lparr>status_code = 500, payload = DefaultPage\<rparr>, [])
      | Inr None \<Rightarrow> (error_reply 400 (lit ''No file uploaded'') NoDetail, [])
      | Inr (Some file) \<Rightarrow>
          (case pdfParse svc (buffer file) of
             Inr t \<Rightarrow> (json_reply (TextJson t), [CallPdfParse (buffer file)])
           | Inl e \<Rightarrow>
               (error_reply 500 (lit ''Failed to parse PDF'') NoDetail,
                [CallPdfParse (buffer file)])))"

text \<open>The template literal \<open>systemPrompt\<close>; \<open>${v}\<close> of a string is the string.\<close>

definition systemPrompt_head :: jsstring where
  \<open>systemPrompt_head = lit
''\<newline>You are generating a prompt for Nano Banana Pro, an advanced AI that creates a single infographic summarizing a scientific PDF.\<newline>\<newline>INPUT DATA:\<newline>- PDF text: ''\<close>

definition systemPrompt_task :: jsstring where
  \<open>systemPrompt_task = lit
''\<newline>\<newline>TASK:\<newline>Create a complete Nano Banana Pro prompt that:\<newline>  - Summarizes the entire PDF into one infographic\<newline>  - Adjusts language, visuals, and detail level to the selected audience\<newline>  - Includes or excludes technical terms exactly as instructed\<newline>  - Follows the selected focus mode\<newline>  - Provides clear visual layout instructions (structure, hierarchy, sections)\<newline>  - Includes labels, icons, and simple diagram descriptions\<newline>  - Is explicit enough for Nano Banana Pro to generate the infographic\<newline>\<newline>OUTPUT FORMAT:\<newline>{\<newline>  "prompt": "<FINAL_NANO_BANANA_PROMPT>"\<newline>}\<newline>''\<close>

definition systemPrompt_options :: "jsstring \<Rightarrow> jsstring \<Rightarrow> jsstring \<Rightarrow> jsstring" where
  "systemPrompt_options a tm f =
     lit ''... (truncated for context limit)\<newline>- Level: '' @ a
     @ lit ''\<newline>- Technical terms: '' @ tm
     @ lit ''\<newline>- Focus: '' @ f
     @ systemPrompt_task"

definition systemPrompt :: "jsstring \<Rightarrow> jsstring \<Rightarrow> jsstring \<Rightarrow> jsstring \<Rightarrow> jsstring" where
  "systemPrompt t a tm f =
     systemPrompt_head @ substring t 0 10000 @ systemPrompt_options a tm f"

text \<open>
  The evaluation of the template on the members of the body, which are truthy when it is
  reached: \<open>text.substring\<close> exists for a string only and the call throws a \<open>TypeError\<close> for
  every other value; then each of the three options is converted to a string, which may
  throw as well.
\<close>

definition build_systemPrompt ::
  "json option \<Rightarrow> json option \<Rightarrow> json option \<Rightarrow> json option \<Rightarrow> exn + jsstring" where
  "build_systemPrompt t a tm f =
     (case t of
        Some (JStr s) \<Rightarrow>
          and_then (template a) (\<lambda>a'.
          and_then (template tm) (\<lambda>tm'.
          and_then (template f) (\<lambda>f'.
            Inr (systemPrompt s a' tm' f'))))
      | _ \<Rightarrow> Inl TypeError)"

text \<open>
  \<open>content.match(/\{[\s\S]*\}/)\<close>: the span from the first \<open>{\<close> to the last \<open>}\<close> after it,
  \<open>None\<close> when there is none.
\<close>

definition lbrace :: "16 word" where "lbrace = 123"
definition rbrace :: "16 word" where "rbrace = 125"

definition up_to_last :: "16 word \<Rightarrow> jsstring \<Rightarrow> jsstring" where
  "up_to_last c s = rev (dropWhile (\<lambda>x. x \<noteq> c) (rev s))"

definition jsonMatch :: "jsstring \<Rightarrow> jsstring option" where
  "jsonMatch content =
     (case dropWhile (\<lambda>x. x \<noteq> lbrace) content of
        [] \<Rightarrow> None
      | b # rest \<Rightarrow> if rbrace \<in> set rest then Some (b # up_to_last rbrace rest) else None)"

text \<open>
  The inner \<open>try\<close> block of the directive route: \<open>JSON.parse\<close> on the match, or on the whole
  reply when nothing matches, then the read of \<open>parsed.prompt\<close>. \<open>Inl\<close> is what the block
  throws, \<open>Inr\<close> the value handed to \<open>res.json\<close>.
\<close>

definition parse_candidate :: "jsstring \<Rightarrow> jsstring" where
  "parse_candidate content = (case jsonMatch content of Some m \<Rightarrow> m | None \<Rightarrow> content)"

definition parsed_prompt :: "services \<Rightarrow> jsstring \<Rightarrow> exn + json option" where
  "parsed_prompt svc content =
     (case JSON_parse svc (parse_candidate content) of
        None \<Rightarrow> Inl SyntaxError
      | Some parsed \<Rightarrow> get_member (lit ''prompt'') (Some parsed))"

definition reply_prompt :: "services \<Rightarrow> jsstring \<Rightarrow> json option" where
  "reply_prompt svc content =
     (case parsed_prompt svc content of
        Inr v \<Rightarrow> v
      | Inl e \<Rightarrow> Some (JStr content))"

text \<open>The guard of the directive route, \<open>!text || !audience || !terms || !focus\<close>.\<close>

definition missing_required_parameters :: "json_body \<Rightarrow> bool" where
  "missing_required_parameters b =
     (\<not> truthy (text' b) \<or> \<not> truthy (audience b) \<or> \<not> truthy (terms b) \<or> \<not> truthy (focus b))"

text \<open>
  The directive route. The template is evaluated after the guard and before the \<open>try\<close>:
  when it throws, the promise of the handler rejects (\<open>Inl\<close>) and the handler sends
  nothing. Inside the \<open>try\<close>, a throw of the call to the language model or of
  \<open>"Mock prompt for " + audience\<close> is caught and answered with status 500.
\<close>

definition prompt_failed :: "exn \<Rightarrow> response" where
  "prompt_failed err = error_reply 500 (lit ''Failed to generate prompt: '') (MessageOf err)"

definition api_generate_prompt ::
  "env \<Rightarrow> services \<Rightarrow> json_body \<Rightarrow> (exn + response) \<times> ext_call list" where
  "api_generate_prompt e svc b =
     (if missing_required_parameters b
      then (Inr (error_reply 400 (lit ''Missing required parameters'') NoDetail), [])
      else case build_systemPrompt (text' b) (audience b) (terms b) (focus b) of
             Inl err \<Rightarrow> (Inl err, [])
           | Inr sp \<Rightarrow>
               if truthy_str (API_KEY e) then
                 (case generateContent svc sp of
                    Inr content \<Rightarrow>
                      (Inr (json_reply (PromptJson (reply_prompt svc content))), [CallLLM sp])
                  | Inl err \<Rightarrow> (Inr (prompt_failed err), [CallLLM sp]))
               else
                 (case template (audience b) of
                    Inr a \<Rightarrow>
                      (Inr (json_reply (PromptJson (Some (JStr (lit ''Mock prompt for '' @ a))))), [])
                  | Inl err \<Rightarrow> (Inr (prompt_failed err), [])))"

text \<open>The image route: the walk through \<open>response.data\<close>.\<close>

definition first_candidate :: "json option \<Rightarrow> json option" where
  "first_candidate d =
     (if \<not> truthy d then None
      else case get_member (lit ''candidates'') d of
             Inl e \<Rightarrow> None
           | Inr None \<Rightarrow> None
           | Inr (Some c) \<Rightarrow>
               if \<not> truthy (Some c) then None
               else if truthy (index0 c) then index0 c else None)"

definition is_image_part :: "json \<Rightarrow> exn + bool" where
  "is_image_part part =
     (case get_member (lit ''inlineData'') (Some part) of
        Inl e \<Rightarrow> Inl e
      | Inr d \<Rightarrow>
          if \<not> truthy d then Inr False
          else (case get_member (lit ''thought'') (Some part) of
                  Inl e \<Rightarrow> Inl e
                | Inr th \<Rightarrow> Inr (\<not> truthy th)))"

fun find_part :: "json list \<Rightarrow> exn + json option" where
  "find_part [] = Inr None"
| "find_part (p # ps) =
     (case is_image_part p of
        Inl e \<Rightarrow> Inl e
      | Inr True \<Rightarrow> Inr (Some p)
      | Inr False \<Rightarrow> find_part ps)"

definition parts_find :: "json option \<Rightarrow> exn + json option" where
  "parts_find parts = (case parts of Some (JArr ps) \<Rightarrow> find_part ps | _ \<Rightarrow> Inl TypeError)"

definition image_url :: "json option \<Rightarrow> exn + jsstring" where
  "image_url d =
     (case first_candidate d of
        None \<Rightarrow> Inl (Error (lit ''Invalid response structure''))
      | Some c \<Rightarrow>
          and_then (get_member (lit ''content'') (Some c)) (\<lambda>content.
          and_then (get_member (lit ''parts'') content) (\<lambda>parts.
          and_then (parts_find parts) (\<lambda>imagePart.
            if \<not> truthy imagePart then Inl (Error (lit ''No image data in response''))
            else and_then (get_member (lit ''inlineData'') imagePart) (\<lambda>inlineData.
              if \<not> truthy inlineData then Inl (Error (lit ''No image data in response''))
              else and_then (get_member (lit ''data'') inlineData) (\<lambda>imageData.
                and_then (template imageData) (\<lambda>data.
                  Inr (lit ''data:image/png;base64,'' @ data))))))))"

definition mockImageUrl :: jsstring where
  "mockImageUrl = lit ''https://placehold.co/600x800/8b5cf6/ffffff?text=Infographic+Generated''"

definition infographic_failed :: "exn \<Rightarrow> response" where
  "infographic_failed err =
     error_reply 500 (lit ''Failed to generate infographic: '')
       (case err of ResponseError d \<Rightarrow> StringifyOf d | _ \<Rightarrow> MessageOf err)"

definition api_generate_infographic ::
  "env \<Rightarrow> services \<Rightarrow> json_body \<Rightarrow> response \<times> ext_call list" where
  "api_generate_infographic e svc b =
     (case prompt b of
        None \<Rightarrow> (error_reply 400 (lit ''Missing prompt'') NoDetail, [])
      | Some p \<Rightarrow>
          if \<not> truthy (Some p) then (error_reply 400 (lit ''Missing prompt'') NoDetail, [])
          else if truthy_str (API_KEY e) then
            (case and_then (image_post svc (API_KEY e) p) image_url of
               Inr imageUrl \<Rightarrow> (json_reply (ImageJson imageUrl), [CallImage p])
             | Inl err \<Rightarrow> (infographic_failed err, [CallImage p]))
          else (json_reply (ImageJson mockImageUrl), []))"

text \<open>
  The application: in production the static files of the client build, then the four
  routes, and Express's 404 for every other request. \<open>express.static\<close> answers \<open>GET\<close> only,
  with the file it finds or with a redirection to the directory it finds; Express matches
  a route path without regard to case and with an optional trailing slash. When the
  promise of the directive handler rejects, the reply is the framework's.
\<close>

definition lower :: "16 word \<Rightarrow> 16 word" where
  "lower c = (if 65 \<le> c \<and> c \<le> 90 then c + 32 else c)"

definition route :: "string \<Rightarrow> jsstring \<Rightarrow> bool" where
  "route pat p = (map lower p = lit pat \<or> map lower p = lit pat @ lit ''/'')"

definition static_page :: "env \<Rightarrow> services \<Rightarrow> request \<Rightarrow> response option" where
  "static_page e svc req =
     (if NODE_ENV e = Some (lit ''production'') \<and> req_method req = GET
      then (case dist_file svc (req_path req) of
              Some (File page) \<Rightarrow> Some \<lparr>status_code = 200, payload = StaticFile page\<rparr>
            | Some Directory \<Rightarrow>
                Some \<lparr>status_code = 301, payload = Redirect (req_path req @ lit ''/'')\<rparr>
            | None \<Rightarrow> None)
      else None)"

definition settle :: "services \<Rightarrow> (exn + response) \<times> ext_call list \<Rightarrow> response \<times> ext_call list" where
  "settle svc r =
     (case r of
        (Inr res, calls) \<Rightarrow> (res, calls)
      | (Inl err, calls) \<Rightarrow> (on_rejection svc err, calls))"

definition routes :: "env \<Rightarrow> services \<Rightarrow> request \<Rightarrow> response \<times> ext_call list" where
  "routes e svc req =
     (if req_method req = GET \<and> route ''/api/status'' (req_path req)
        then (api_status e, [])
      else if req_method req = POST \<and> route ''/api/upload'' (req_path req)
        then api_upload svc (req_file req)
      else if req_method req = POST \<and> route ''/api/generate-prompt'' (req_path req)
        then settle svc (api_generate_prompt e svc (req_body req))
      else if req_method req = POST \<and> route ''/api/generate-infographic'' (req_path req)
        then api_generate_infographic e svc (req_body req)
      else (\<lparr>status_code = 404, payload = DefaultPage\<rparr>, []))"

definition app :: "env \<Rightarrow> services \<Rightarrow> request \<Rightarrow> response \<times> ext_call list" where
  "app e svc req =
     (case static_page e svc req of
        Some res \<Rightarrow> (res, [])
      | None \<Rightarrow> routes e svc req)"

section \<open>The client\<close>

subsection \<open>api.js\<close>

text \<open>
  Each function of api.js posts one request and returns \<open>response.data\<close>, or throws what
  axios throws. \<open>post\<close> is the transport: \<open>Inl m\<close> is a thrown error with \<open>message\<close> \<open>m\<close>,
  \<open>Inr b\<close> the body of a 2xx response. The requests are built as the source builds them,
  from the strings of the client, a member that is \<open>undefined\<close> being absent from the JSON
  sent; \<open>generateInfographic\<close> alone posts to the absolute \<open>API_URL\<close>.
\<close>

definition empty_body :: json_body where
  "empty_body = \<lparr>language = None, audience = None, focus = None, terms = None,
     styleNotes = None, text' = None, prompt = None\<rparr>"

definition API_URL :: jsstring where
  "API_URL = lit ''http://localhost:3000/api''"

definition uploadPDF :: "upload_file option \<Rightarrow> request" where
  "uploadPDF f = \<lparr>req_method = POST, req_path = lit ''/api/upload'',
     req_body = empty_body, req_file = f\<rparr>"

definition processText :: "jsstring \<Rightarrow> request" where
  "processText t = \<lparr>req_method = POST, req_path = lit ''/api/process-text'',
     req_body = empty_body\<lparr>text' := Some (JStr t)\<rparr>, req_file = None\<rparr>"

definition generatePrompt ::
  "jsstring option \<Rightarrow> jsstring option \<Rightarrow> jsstring option \<Rightarrow> jsstring option \<Rightarrow>
   jsstring option \<Rightarrow> jsstring option \<Rightarrow> request" where
  "generatePrompt t a tm f l sn = \<lparr>req_method = POST, req_path = lit ''/api/generate-prompt'',
     req_body = \<lparr>language = map_option JStr l, audience = map_option JStr a,
       focus = map_option JStr f, terms = map_option JStr tm,
       styleNotes = map_option JStr sn, text' = map_option JStr t, prompt = None\<rparr>,
     req_file = None\<rparr>"

definition generateInfographic :: "json option \<Rightarrow> request" where
  "generateInfographic p = \<lparr>req_method = POST,
     req_path = API_URL @ lit ''/generate-infographic'',
     req_body = empty_body\<lparr>prompt := p\<rparr>, req_file = None\<rparr>"

text \<open>The members the client reads from \<open>response.data\<close>.\<close>

definition data_text :: "body \<Rightarrow> jsstring option" where
  "data_text b = (case b of TextJson t \<Rightarrow> Some t | _ \<Rightarrow> None)"

definition data_prompt :: "body \<Rightarrow> json option" where
  "data_prompt b = (case b of PromptJson v \<Rightarrow> v | _ \<Rightarrow> None)"

definition data_imageUrl :: "body \<Rightarrow> jsstring option" where
  "data_imageUrl b = (case b of ImageJson u \<Rightarrow> Some u | _ \<Rightarrow> None)"

definition data_llm :: "body \<Rightarrow> bool option" where
  "data_llm b = (case b of StatusJson l n \<Rightarrow> Some l | _ \<Rightarrow> None)"

definition data_nanoBanana :: "body \<Rightarrow> bool option" where
  "data_nanoBanana b = (case b of StatusJson l n \<Rightarrow> Some n | _ \<Rightarrow> None)"

subsection \<open>The App component\<close>

datatype input_mode = PdfMode | TextMode

record app_state =
  step :: nat
  file' :: "upload_file option"
  pdfText :: "jsstring option"
  inputMode :: input_mode
  textInput :: jsstring
  options :: "jsstring options"
  showAdvanced :: bool
  status :: jsstring
  resultImage :: jsstring
  error :: jsstring

definition initial_state :: app_state where
  "initial_state = \<lparr>step = 1, file' = None, pdfText = Some [], inputMode = PdfMode,
     textInput = [],
     options = \<lparr>language = Some (lit ''Deutsch''), audience = Some (lit ''General public''),
       focus = Some (lit ''Balanced overview''), terms = Some (lit ''Include & Explain''),
       styleNotes = Some []\<rparr>,
     showAdvanced = False, status = [], resultImage = [], error = []\<rparr>"

definition large_file_warning :: jsstring where
  "large_file_warning = [0x26A0, 0xFE0F] @ lit '' Large file detected. Processing may take longer and results might be affected due to file size.''"

definition handleFileUpload :: "upload_file option \<Rightarrow> app_state \<Rightarrow> app_state" where
  "handleFileUpload selectedFile s =
     (case selectedFile of
        None \<Rightarrow> s
      | Some f \<Rightarrow>
          if 50 * 1024 * 1024 < file_size f
          then s\<lparr>error := lit ''File size exceeds 50MB limit.''\<rparr>
          else if mimetype f \<noteq> lit ''application/pdf''
          then s\<lparr>error := lit ''Only PDF files are allowed.''\<rparr>
          else s\<lparr>error := (if 25 * 1024 * 1024 < file_size f then large_file_warning else []),
                 file' := Some f\<rparr>)"

text \<open>The \<open>disabled\<close> attribute of the Continue button of step 1.\<close>

definition continue_disabled :: "app_state \<Rightarrow> bool" where
  "continue_disabled s =
     (if inputMode s = PdfMode then file' s = None else length (textInput s) < 100)"

text \<open>\<open>String.prototype.trim\<close>: white space and line terminators of ECMAScript.\<close>

definition is_space :: "16 word \<Rightarrow> bool" where
  "is_space c = (c \<in> {0x9, 0xA, 0xB, 0xC, 0xD, 0x20, 0xA0, 0x1680, 0x2028, 0x2029, 0x202F,
     0x205F, 0x3000, 0xFEFF} \<or> (0x2000 \<le> c \<and> c \<le> 0x200A))"

definition trim :: "jsstring \<Rightarrow> jsstring" where
  "trim s = rev (dropWhile is_space (rev (dropWhile is_space s)))"

text \<open>
  The \<open>try\<close> block of \<open>startProcess\<close>: the message of what it throws if it throws, the
  state as the setters leave it, and the requests sent, in order.
\<close>

definition try_block ::
  "(request \<Rightarrow> jsstring + body) \<Rightarrow> app_state \<Rightarrow> jsstring option \<times> app_state \<times> request list" where
  "try_block post s =
     (let s1 = s\<lparr>status := (if inputMode s = PdfMode then lit ''Uploading and analyzing PDF...''
                               else lit ''Processing your text...'')\<rparr>;
          r1 = (if inputMode s = PdfMode then uploadPDF (file' s) else processText (textInput s))
      in case post r1 of
           Inl m \<Rightarrow> (Some m, s1, [r1])
         | Inr d1 \<Rightarrow>
             (let extractedText = data_text d1;
                  s2 = s1\<lparr>pdfText := extractedText,
                          status := lit ''Generating infographic prompt...''\<rparr>;
                  r2 = generatePrompt extractedText (audience (options s)) (terms (options s))
                         (focus (options s)) (language (options s)) (styleNotes (options s))
              in case post r2 of
                   Inl m \<Rightarrow> (Some m, s2, [r1, r2])
                 | Inr d2 \<Rightarrow>
                     (let s3 = s2\<lparr>status := lit ''Creating infographic with Nano Banana Pro...''\<rparr>;
                          r3 = generateInfographic (data_prompt d2)
                      in case post r3 of
                           Inl m \<Rightarrow> (Some m, s3, [r1, r2, r3])
                         | Inr d3 \<Rightarrow>
                             (case data_imageUrl d3 of
                                None \<Rightarrow>
                                  (Some (lit ''No image URL returned from server''), s3, [r1, r2, r3])
                              | Some u \<Rightarrow>
                                  if u = []
                                  then (Some (lit ''No image URL returned from server''), s3,
                                        [r1, r2, r3])
                                  else (None,
                                        s3\<lparr>resultImage := u, status := lit ''Completed!'', step := 4\<rparr>,
                                        [r1, r2, r3])))))"

definition startProcess ::
  "(request \<Rightarrow> jsstring + body) \<Rightarrow> app_state \<Rightarrow> app_state \<times> request list" where
  "startProcess post s =
     (if inputMode s = PdfMode \<and> file' s = None
      then (s\<lparr>error := lit ''Please upload a PDF file first.''\<rparr>, [])
      else if inputMode s = TextMode \<and> trim (textInput s) = []
      then (s\<lparr>error := lit ''Please enter some text first.''\<rparr>, [])
      else (case try_block post (s\<lparr>step := 3, error := []\<rparr>) of
              (None, s', sent) \<Rightarrow> (s', sent)
            | (Some m, s', sent) \<Rightarrow>
                (s'\<lparr>error := lit ''An error occurred: ''
                              @ (if m = [] then lit ''Unknown error'' else m)\<rparr>, sent)))"

text \<open>What the page shows: the image at step 4 only, the error text at steps 1 to 3.\<close>

definition shown_image :: "app_state \<Rightarrow> jsstring option" where
  "shown_image s = (if step s = 4 then Some (resultImage s) else None)"

definition shown_error :: "app_state \<Rightarrow> jsstring option" where
  "shown_error s = (if step s \<in> {1, 2, 3} \<and> error s \<noteq> [] then Some (error s) else None)"

text \<open>
  The coordinator states of the specification, read off the component's state: a run is
  started when \<open>startProcess\<close> passes its two guards; \<open>Complete\<close> is step 4 with an image;
  \<open>Failed m\<close> is step 3 with the error text made from the message \<open>m\<close>.
\<close>

definition started :: "app_state \<Rightarrow> bool" where
  "started s = (\<not> (inputMode s = PdfMode \<and> file' s = None)
     \<and> \<not> (inputMode s = TextMode \<and> trim (textInput s) = []))"

definition Complete :: "app_state \<Rightarrow> bool" where
  "Complete s = (step s = 4 \<and> status s = lit ''Completed!'' \<and> error s = [] \<and> resultImage s \<noteq> [])"

definition Failed :: "jsstring \<Rightarrow> app_state \<Rightarrow> bool" where
  "Failed m s = (step s = 3
     \<and> error s = lit ''An error occurred: '' @ (if m = [] then lit ''Unknown error'' else m))"

subsection \<open>The browser beside the server\<close>

text \<open>
  axios against the server of \<open>server/index.js\<close>, for a page served by that server on port
  3000 of the same machine: a relative URL and \<open>http://localhost:3000\<close> reach the same
  application. axios throws on a status outside 200 to 299, with the message below.
\<close>

fun decimal :: "nat \<Rightarrow> jsstring" where
  "decimal n = (if n < 10 then [of_nat (48 + n)]
                else decimal (n div 10) @ [of_nat (48 + n mod 10)])"

definition strip_origin :: "jsstring \<Rightarrow> jsstring" where
  "strip_origin url =
     (let origin = lit ''http://localhost:3000''
      in if take (length origin) url = origin then drop (length origin) url else url)"

definition axios_post :: "env \<Rightarrow> services \<Rightarrow> request \<Rightarrow> jsstring + body" where
  "axios_post e svc req =
     (let res = fst (app e svc (req\<lparr>req_path := strip_origin (req_path req)\<rparr>))
      in if 200 \<le> status_code res \<and> status_code res < 300 then Inr (payload res)
         else Inl (lit ''Request failed with status code '' @ decimal (status_code res)))"

section \<open>Notions of the specification\<close>

text \<open>
  The response shape the image route recognises: an object whose \<open>candidates\<close> has a first
  entry that is an object, whose \<open>content\<close> is an object, whose \<open>parts\<close> is an array.
\<close>

definition response_parts :: "json option \<Rightarrow> json list option" where
  "response_parts d =
     (case d of
        Some (JObj root) \<Rightarrow>
          (case map_of root (lit ''candidates'') of
             Some cands \<Rightarrow>
               (case index0 cands of
                  Some (JObj c) \<Rightarrow>
                    (case map_of c (lit ''content'') of
                       Some (JObj ct) \<Rightarrow>
                         (case map_of ct (lit ''parts'') of
                            Some (JArr ps) \<Rightarrow> Some ps
                          | _ \<Rightarrow> None)
                     | _ \<Rightarrow> None)
                | _ \<Rightarrow> None)
           | None \<Rightarrow> None)
      | _ \<Rightarrow> None)"

text \<open>A part that carries inline image data and is not a thought; the payload it carries.\<close>

definition image_part :: "json \<Rightarrow> bool" where
  "image_part p =
     (case p of
        JObj kvs \<Rightarrow> truthy (map_of kvs (lit ''inlineData'')) \<and> \<not> truthy (map_of kvs (lit ''thought''))
      | _ \<Rightarrow> False)"

definition inline_payload :: "json \<Rightarrow> json option" where
  "inline_payload p =
     (case p of
        JObj kvs \<Rightarrow>
          (case map_of kvs (lit ''inlineData'') of
             Some (JObj m) \<Rightarrow> map_of m (lit ''data'')
           | _ \<Rightarrow> None)
      | _ \<Rightarrow> None)"

text \<open>
  The first such part of a list of parts is \<open>find image_part\<close>; \<open>null_before_image\<close> says that
  a \<open>null\<close> stands among the parts before it (among all parts when there is none).
\<close>

definition null_before_image :: "json list \<Rightarrow> bool" where
  "null_before_image ps = (JNull \<in> set (takeWhile (\<lambda>p. \<not> image_part p) ps))"

text \<open>A string that occurs in another, as a run of consecutive code units.\<close>

fun carries :: "jsstring \<Rightarrow> jsstring \<Rightarrow> bool" where
  "carries x [] = (x = [])"
| "carries x (c # cs) = (take (length x) (c # cs) = x \<or> carries x cs)"

text \<open>A JSON value that is an object with the member \<open>name\<close>.\<close>

definition has_member :: "jsstring \<Rightarrow> json \<Rightarrow> bool" where
  "has_member name j = (case j of JObj kvs \<Rightarrow> map_of kvs name \<noteq> None | _ \<Rightarrow> False)"

section \<open>Sample inputs\<close>

text \<open>A server without a credential and one with a credential.\<close>

definition unconfigured :: env where
  "unconfigured = \<lparr>LLM_API_KEY = None, NANO_BANANA_API_KEY = None, NODE_ENV = None\<rparr>"

definition configured :: env where
  "configured = \<lparr>LLM_API_KEY = Some (lit ''key''), NANO_BANANA_API_KEY = None, NODE_ENV = None\<rparr>"

definition sample_body :: json_body where
  "sample_body = \<lparr>language = Some (JStr (lit ''English'')),
     audience = Some (JStr (lit ''Undergraduate'')),
     focus = Some (JStr (lit ''Core scientific concepts'')),
     terms = Some (JStr (lit ''Include & Explain'')),
     styleNotes = Some (JStr (lit ''Use vibrant colors'')),
     text' = Some (JStr (lit ''Photosynthesis turns light into chemical energy.'')),
     prompt = None\<rparr>"

definition long_body :: json_body where
  "long_body = sample_body\<lparr>text' := Some (JStr (replicate 10001 97))\<rparr>"

text \<open>
  Services whose language model answers \<open>reply\<close> and whose image model answers \<open>img\<close>,
  under a framework that answers a rejected handler with status 500.
  \<open>sample_parse\<close> is \<open>JSON.parse\<close> on the two texts it knows; on the other texts used
  below, which are not JSON, \<open>JSON.parse\<close> throws as well.
\<close>

definition sample_parse :: "jsstring \<Rightarrow> json option" where
  \<open>sample_parse s =
     (if s = lit ''null'' then Some JNull
      else if s = lit ''{"title": "Photosynthesis"}''
      then Some (JObj [(lit ''title'', JStr (lit ''Photosynthesis''))])
      else None)\<close>

definition scripted :: "jsstring \<Rightarrow> json option \<Rightarrow> services" where
  "scripted reply img = \<lparr>pdfParse = (\<lambda>_. Inl (Error (lit ''not a PDF''))),
     generateContent = (\<lambda>_. Inr reply), image_post = (\<lambda>_ _. Inr img),
     JSON_parse = sample_parse, dist_file = (\<lambda>_. None),
     on_rejection = (\<lambda>_. \<lparr>status_code = 500, payload = DefaultPage\<rparr>)\<rparr>"

text \<open>The request of the first version of the client, which passes no language and no
  style notes; and a request whose text is the number 12345.\<close>

definition bare_body :: json_body where
  "bare_body = sample_body\<lparr>language := None, styleNotes := None\<rparr>"

definition numeric_body :: json_body where
  "numeric_body = sample_body\<lparr>text' := Some (JNum (lit ''12345''))\<rparr>"

text \<open>A reply of the language model that wraps a JSON object without \<open>prompt\<close> in prose.\<close>

definition titled_reply :: jsstring where
  \<open>titled_reply = lit ''Here you go: {"title": "Photosynthesis"} Enjoy!''\<close>

text \<open>
  Parts of an answer of the image model: a thought, a thought with an image, a caption,
  two images, a refusal, an image whose data is an object with a member \<open>toString\<close>, and an
  image whose \<open>inlineData\<close> is empty. \<open>with_parts\<close> is the answer with the given parts.
\<close>

definition inline_image :: "jsstring \<Rightarrow> (jsstring \<times> json)" where
  "inline_image payload_text =
     (lit ''inlineData'', JObj [(lit ''mimeType'', JStr (lit ''image/png'')),
                               (lit ''data'', JStr payload_text)])"

definition thinking_part :: json where
  "thinking_part = JObj [(lit ''text'', JStr (lit ''Planning the layout'')),
                         (lit ''thought'', JBool True)]"

definition draft_part :: json where
  "draft_part = JObj [inline_image (lit ''RFJBRlQ=''), (lit ''thought'', JBool True)]"

definition caption_part :: json where
  "caption_part = JObj [(lit ''text'', JStr (lit ''Here is the infographic.''))]"

definition image_only :: json where
  "image_only = JObj [inline_image (lit ''iVBORw0KGgo='')]"

definition second_image :: json where
  "second_image = JObj [inline_image (lit ''U0VDT05E'')]"

definition refusal_part :: json where
  "refusal_part = JObj [(lit ''text'', JStr (lit ''I cannot draw this.''))]"

definition unprintable_part :: json where
  "unprintable_part =
     JObj [(lit ''inlineData'', JObj [(lit ''data'', JObj [(lit ''toString'', JNum (lit ''1''))])])]"

definition empty_inline_part :: json where
  "empty_inline_part = JObj [(lit ''inlineData'', JObj [])]"

definition with_parts :: "json list \<Rightarrow> json" where
  "with_parts ps =
     JObj [(lit ''candidates'', JArr [JObj [(lit ''content'', JObj [(lit ''parts'', JArr ps)])]])]"


definition text_only_response :: json where
  "text_only_response = with_parts [refusal_part]"





text \<open>
  Files to upload: a few bytes, and 30 MB; a pasted text of 100 characters; services whose
  PDF parser returns a text; the component at step 2 with a file, or with a pasted text.
\<close>

definition small_pdf :: upload_file where
  "small_pdf = \<lparr>mimetype = lit ''application/pdf'', buffer = [0x25, 0x50, 0x44, 0x46]\<rparr>"

definition big_pdf :: upload_file where
  "big_pdf = \<lparr>mimetype = lit ''application/pdf'', buffer = replicate (30 * 1024 * 1024) 0\<rparr>"

definition pasted_text :: jsstring where
  "pasted_text = replicate 100 97"

definition reading :: services where
  "reading = (scripted [] None)\<lparr>pdfParse :=
     (\<lambda>_. Inr (lit ''Photosynthesis turns light into chemical energy.''))\<rparr>"

text \<open>Services that read the PDF, get a plain reply from the language model, and an answer
  without an image from the image model.\<close>

definition no_image :: services where
  "no_image = (scripted (lit ''A poster about photosynthesis'') (Some text_only_response))\<lparr>pdfParse :=
     (\<lambda>_. Inr (lit ''Photosynthesis turns light into chemical energy.''))\<rparr>"

definition ready_state :: "upload_file \<Rightarrow> app_state" where
  "ready_state f = initial_state\<lparr>step := 2, file' := Some f\<rparr>"

definition text_state :: "jsstring \<Rightarrow> app_state" where
  "text_state t = initial_state\<lparr>step := 2, inputMode := TextMode, textInput := t\<rparr>"

section \<open>Properties of the server\<close>

lemma lit_Nil [simp]: "lit [] = []"
  by (simp add: lit_def)

lemma lit_eq_Nil [simp]: "(lit s = []) = (s = [])"
  by (simp add: lit_def)

lemma substring_prefix: "substring t 0 n = take n t"
  by (simp add: substring_def Let_def min_def max_def)

lemma build_systemPrompt_strings:
  "build_systemPrompt (Some (JStr t)) (Some (JStr a)) (Some (JStr tm)) (Some (JStr f))
     = Inr (systemPrompt t a tm f)"
  by (simp add: build_systemPrompt_def template_def and_then_def)

subsection \<open>The status route\<close>

lemma route_status: "routes e svc \<lparr>req_method = GET, req_path = lit ''/api/status'',
    req_body = b, req_file = None\<rparr> = (api_status e, [])"
  by (simp add: routes_def route_def lower_def lit_def)

text \<open>
  C9. The two flags of the status reply, \<open>llm\<close> and \<open>nanoBanana\<close>, are both \<open>!!API_KEY\<close>: they
  are equal for every environment, and true exactly when one of the two environment
  variables that \<open>API_KEY\<close> is read from is a non-empty string.
\<close>

theorem status_flags_equal:
  "data_llm (payload (api_status e)) = data_nanoBanana (payload (api_status e))
   \<and> data_llm (payload (api_status e))
       = Some (truthy_str (LLM_API_KEY e) \<or> truthy_str (NANO_BANANA_API_KEY e))"
  by (auto simp add: api_status_def json_reply_def data_llm_def data_nanoBanana_def
      API_KEY_def js_or_def truthy_str_def split: option.splits)

subsection \<open>The directive route\<close>

text \<open>
  C3. The directive route reads \<open>text\<close>, \<open>audience\<close>, \<open>terms\<close> and \<open>focus\<close> from the body and
  nothing else: whatever \<open>language\<close> and \<open>styleNotes\<close> a request carries, the response and
  the call to the language model are those of the request without them. The directive
  therefore incorporates neither the target language nor the style notes.
\<close>

theorem directive_ignores_language_and_styleNotes:
  "api_generate_prompt e svc (b\<lparr>language := l, styleNotes := sn\<rparr>) = api_generate_prompt e svc b"
  by (simp add: api_generate_prompt_def missing_required_parameters_def cong: sum.case_cong if_cong)

text \<open>
  C8. With a credential and a complete request, the language model is called once, with
  the fixed head of the template, then the first 10000 code units of the text, then a tail
  that depends on the options only. The embedded part is never longer than 10000, and a
  text of at most 10000 code units is embedded whole.
\<close>

theorem prompt_text_truncated:
  assumes "truthy_str (API_KEY e)"
    and "text' b = Some (JStr t)" and "audience b = Some (JStr a)"
    and "terms b = Some (JStr tm)" and "focus b = Some (JStr f)"
    and "t \<noteq> []" and "a \<noteq> []" and "tm \<noteq> []" and "f \<noteq> []"
  shows "snd (api_generate_prompt e svc b)
           = [CallLLM (systemPrompt_head @ take 10000 t @ systemPrompt_options a tm f)]
    \<and> length (take 10000 t) \<le> 10000
    \<and> (length t \<le> 10000 \<longrightarrow> take 10000 t = t)"
  using assms
  by (simp add: api_generate_prompt_def missing_required_parameters_def build_systemPrompt_strings systemPrompt_def
      substring_prefix split: sum.splits)

theorem prompt_text_truncated_witness:
  "truthy_str (API_KEY configured) \<and> text' long_body = Some (JStr (replicate 10001 97))
   \<and> snd (api_generate_prompt configured (scripted [] None) long_body)
       = [CallLLM (systemPrompt_head @ replicate 10000 97
            @ systemPrompt_options (lit ''Undergraduate'') (lit ''Include & Explain'')
                (lit ''Core scientific concepts''))]
   \<and> snd (api_generate_prompt configured (scripted [] None) sample_body)
       = [CallLLM (systemPrompt_head @ lit ''Photosynthesis turns light into chemical energy.''
            @ systemPrompt_options (lit ''Undergraduate'') (lit ''Include & Explain'')
                (lit ''Core scientific concepts''))]"
proof -
  have k: "truthy_str (API_KEY configured)"
    by (simp add: configured_def API_KEY_def js_or_def truthy_str_def)
  have 1: "snd (api_generate_prompt configured (scripted [] None) long_body)
       = [CallLLM (systemPrompt_head @ take 10000 (replicate 10001 97)
            @ systemPrompt_options (lit ''Undergraduate'') (lit ''Include & Explain'')
                (lit ''Core scientific concepts''))]"
    using prompt_text_truncated [OF k, of long_body "replicate 10001 97" "lit ''Undergraduate''"
        "lit ''Include & Explain''" "lit ''Core scientific concepts''" "scripted [] None"]
    by (simp add: long_body_def sample_body_def)
  have 2: "snd (api_generate_prompt configured (scripted [] None) sample_body)
       = [CallLLM (systemPrompt_head
            @ take 10000 (lit ''Photosynthesis turns light into chemical energy.'')
            @ systemPrompt_options (lit ''Undergraduate'') (lit ''Include & Explain'')
                (lit ''Core scientific concepts''))]"
    using prompt_text_truncated [OF k, of sample_body
        "lit ''Photosynthesis turns light into chemical energy.''" "lit ''Undergraduate''"
        "lit ''Include & Explain''" "lit ''Core scientific concepts''" "scripted [] None"]
    by (simp add: sample_body_def)
  have 3: "take 10000 (lit ''Photosynthesis turns light into chemical energy.'')
        = lit ''Photosynthesis turns light into chemical energy.''"
    by (simp add: lit_def)
  show ?thesis using k 1 2 3 by (simp add: long_body_def sample_body_def)
qed

subsection \<open>Without a credential\<close>

text \<open>
  C6. When neither environment variable holds a credential, the status reply has both
  flags false, the directive route answers a complete request with
  \<open>"Mock prompt for " + audience\<close>, and the image route answers every request that has a
  prompt with the one placeholder URL. No external call is made, and the responses do not
  depend on the services.
\<close>

theorem fallback_mode_deterministic:
  assumes "\<not> truthy_str (LLM_API_KEY e)" and "\<not> truthy_str (NANO_BANANA_API_KEY e)"
  shows "api_status e = json_reply (StatusJson False False)
    \<and> (\<forall>t a tm f. text' b = Some (JStr t) \<and> audience b = Some (JStr a)
          \<and> terms b = Some (JStr tm) \<and> focus b = Some (JStr f)
          \<and> t \<noteq> [] \<and> a \<noteq> [] \<and> tm \<noteq> [] \<and> f \<noteq> []
        \<longrightarrow> api_generate_prompt e svc b
            = (Inr (json_reply (PromptJson (Some (JStr (lit ''Mock prompt for '' @ a))))), []))
    \<and> (truthy (prompt b') \<longrightarrow>
          api_generate_infographic e svc b' = (json_reply (ImageJson mockImageUrl), []))"
proof -
  have key: "\<not> truthy_str (API_KEY e)"
    using assms by (simp add: API_KEY_def js_or_def)
  have 1: "api_status e = json_reply (StatusJson False False)"
    using key by (simp add: api_status_def)
  have 2: "api_generate_prompt e svc b
            = (Inr (json_reply (PromptJson (Some (JStr (lit ''Mock prompt for '' @ a))))), [])"
    if "text' b = Some (JStr t)" "audience b = Some (JStr a)" "terms b = Some (JStr tm)"
       "focus b = Some (JStr f)" "t \<noteq> []" "a \<noteq> []" "tm \<noteq> []" "f \<noteq> []" for t a tm f
    using that key
    by (simp add: api_generate_prompt_def missing_required_parameters_def build_systemPrompt_strings template_def)
  have 3: "api_generate_infographic e svc b' = (json_reply (ImageJson mockImageUrl), [])"
    if "truthy (prompt b')"
    using that key by (cases "prompt b'") (simp_all add: api_generate_infographic_def)
  from 1 2 3 show ?thesis by blast
qed

theorem fallback_mode_deterministic_witness:
  "\<not> truthy_str (LLM_API_KEY unconfigured) \<and> \<not> truthy_str (NANO_BANANA_API_KEY unconfigured)
   \<and> api_status unconfigured = json_reply (StatusJson False False)
   \<and> api_generate_prompt unconfigured (scripted [] None) sample_body
       = (Inr (json_reply (PromptJson (Some (JStr (lit ''Mock prompt for Undergraduate''))))), [])
   \<and> api_generate_infographic unconfigured (scripted [] None)
        (empty_body\<lparr>prompt := Some (JStr (lit ''Mock prompt for Undergraduate''))\<rparr>)
       = (json_reply (ImageJson mockImageUrl), [])"
proof -
  have h: "\<not> truthy_str (LLM_API_KEY unconfigured)" "\<not> truthy_str (NANO_BANANA_API_KEY unconfigured)"
    by (simp_all add: unconfigured_def truthy_str_def)
  have p: "truthy (prompt (empty_body\<lparr>prompt := Some (JStr (lit ''Mock prompt for Undergraduate''))\<rparr>))"
    by simp
  show ?thesis
    using h p fallback_mode_deterministic [OF h, of sample_body "scripted [] None"
        "empty_body\<lparr>prompt := Some (JStr (lit ''Mock prompt for Undergraduate''))\<rparr>"]
    by (simp add: sample_body_def lit_def)
qed

lemma configured_key: "truthy_str (API_KEY configured)"
  by (simp add: configured_def API_KEY_def js_or_def truthy_str_def)

subsection \<open>Validation of the directive request\<close>

lemma carries_here: "carries x (x @ post)"
proof (cases "x @ post")
  case Nil
  then show ?thesis by simp
next
  case (Cons c cs)
  then have "take (length x) (c # cs) = x"
    by (metis append_eq_conv_conj)
  then show ?thesis by (simp only: Cons carries.simps simp_thms)
qed

lemma carries_append: "carries x (pre @ x @ post)"
  by (induction pre) (simp_all add: carries_here)

lemma systemPrompt_carries:
  "carries (take 10000 t) (systemPrompt t a tm f)"
  "carries a (systemPrompt t a tm f)"
  "carries tm (systemPrompt t a tm f)"
  "carries f (systemPrompt t a tm f)"
proof -
  show "carries (take 10000 t) (systemPrompt t a tm f)"
    by (simp add: systemPrompt_def substring_prefix carries_append)
  have "systemPrompt t a tm f
      = (systemPrompt_head @ take 10000 t @ lit ''... (truncated for context limit)\<newline>- Level: '')
        @ a @ (lit ''\<newline>- Technical terms: '' @ tm @ lit ''\<newline>- Focus: '' @ f
               @ systemPrompt_task)"
    by (simp add: systemPrompt_def systemPrompt_options_def substring_prefix)
  then show "carries a (systemPrompt t a tm f)"
    by (simp only: carries_append)
  have "systemPrompt t a tm f
      = (systemPrompt_head @ take 10000 t @ lit ''... (truncated for context limit)\<newline>- Level: ''
         @ a @ lit ''\<newline>- Technical terms: '')
        @ tm @ (lit ''\<newline>- Focus: '' @ f @ systemPrompt_task)"
    by (simp add: systemPrompt_def systemPrompt_options_def substring_prefix)
  then show "carries tm (systemPrompt t a tm f)"
    by (simp only: carries_append)
  have "systemPrompt t a tm f
      = (systemPrompt_head @ take 10000 t @ lit ''... (truncated for context limit)\<newline>- Level: ''
         @ a @ lit ''\<newline>- Technical terms: '' @ tm @ lit ''\<newline>- Focus: '')
        @ f @ systemPrompt_task"
    by (simp add: systemPrompt_def systemPrompt_options_def substring_prefix)
  then show "carries f (systemPrompt t a tm f)"
    by (simp only: carries_append)
qed

text \<open>
  What the guard of the directive route does check: a request in which \<open>text\<close>, \<open>audience\<close>,
  \<open>terms\<close> or \<open>focus\<close> is absent or any falsy value is answered with status 400 and
  \<open>Missing required parameters\<close>, and no external call is made. And with a credential, a
  request in which these four are non-empty strings makes one call to the language model,
  with a prompt that carries the first 10000 code units of the text and the audience, the
  terms and the focus.
\<close>

lemma missing_field_rejected:
  assumes "\<not> truthy (text' b) \<or> \<not> truthy (audience b) \<or> \<not> truthy (terms b) \<or> \<not> truthy (focus b)"
  shows "api_generate_prompt e svc b
          = (Inr (error_reply 400 (lit ''Missing required parameters'') NoDetail), [])"
  using assms by (auto simp add: api_generate_prompt_def missing_required_parameters_def)

lemma complete_request_calls_model:
  assumes "truthy_str (API_KEY e)"
    and "text' b = Some (JStr t)" and "audience b = Some (JStr a)"
    and "terms b = Some (JStr tm)" and "focus b = Some (JStr f)"
    and "t \<noteq> []" and "a \<noteq> []" and "tm \<noteq> []" and "f \<noteq> []"
  shows "\<exists>p. snd (api_generate_prompt e svc b) = [CallLLM p]
               \<and> carries (take 10000 t) p \<and> carries a p \<and> carries tm p \<and> carries f p"
proof -
  have "snd (api_generate_prompt e svc b) = [CallLLM (systemPrompt t a tm f)]"
    using assms
    by (simp add: api_generate_prompt_def missing_required_parameters_def build_systemPrompt_strings split: sum.splits)
  then show ?thesis
    by (simp add: systemPrompt_carries)
qed

lemma plain_reply:
  "reply_prompt (scripted (lit ''A poster about photosynthesis'') img)
             (lit ''A poster about photosynthesis'')
           = Some (JStr (lit ''A poster about photosynthesis''))"
proof -
  have c: "parse_candidate (lit ''A poster about photosynthesis'')
             = lit ''A poster about photosynthesis''"
    by (simp add: parse_candidate_def jsonMatch_def lbrace_def lit_def)
  have p: "sample_parse (lit ''A poster about photosynthesis'') = None"
    by (simp add: sample_parse_def lit_def)
  show ?thesis
    by (simp add: reply_prompt_def parsed_prompt_def c p scripted_def)
qed

text \<open>
  C5. The guard of the directive route is \<open>!text || !audience || !terms || !focus\<close>: the output
  language is not among the fields it checks. The request of the sample with \<open>text\<close>,
  \<open>audience\<close>, \<open>terms\<close> and \<open>focus\<close> and without \<open>language\<close> is not answered with status 400: with
  a credential the language model is called and its reply is sent with status 200. And a
  request whose text is present but is the number 12345 is neither answered with status
  400 nor passed to the language model: \<open>text.substring\<close> throws before the \<open>try\<close>, and the
  promise of the handler rejects with a \<open>TypeError\<close>.
\<close>

theorem language_not_validated:
  "language bare_body = None
   \<and> api_generate_prompt configured (scripted (lit ''A poster about photosynthesis'') None) bare_body
       = (Inr \<lparr>status_code = 200,
               payload = PromptJson (Some (JStr (lit ''A poster about photosynthesis'')))\<rparr>,
          [CallLLM (systemPrompt (lit ''Photosynthesis turns light into chemical energy.'')
            (lit ''Undergraduate'') (lit ''Include & Explain'') (lit ''Core scientific concepts''))])
   \<and> truthy (text' numeric_body)
   \<and> api_generate_prompt configured (scripted (lit ''A poster about photosynthesis'') None)
        numeric_body
       = (Inl TypeError, [])"
proof -
  have 1: "api_generate_prompt configured (scripted (lit ''A poster about photosynthesis'') None)
             bare_body
       = (Inr (json_reply (PromptJson (Some (JStr (lit ''A poster about photosynthesis''))))),
          [CallLLM (systemPrompt (lit ''Photosynthesis turns light into chemical energy.'')
            (lit ''Undergraduate'') (lit ''Include & Explain'') (lit ''Core scientific concepts''))])"
    using configured_key plain_reply [of None]
    by (simp add: api_generate_prompt_def missing_required_parameters_def bare_body_def sample_body_def
        build_systemPrompt_strings)
       (simp add: scripted_def)
  have 3: "api_generate_prompt configured (scripted (lit ''A poster about photosynthesis'') None)
        numeric_body
       = (Inl TypeError, [])"
    by (simp add: api_generate_prompt_def missing_required_parameters_def numeric_body_def sample_body_def
        build_systemPrompt_def lit_def)
  have 4: "truthy (text' numeric_body)"
    by (simp add: numeric_body_def lit_def)
  show ?thesis using 1 3 4 by (simp add: bare_body_def sample_body_def json_reply_def)
qed

subsection \<open>The reply of the language model\<close>

text \<open>The regular expression takes the span from the first opening brace to the last closing
  brace.\<close>

lemma dropWhile_until:
  assumes "c \<notin> set before"
  shows "dropWhile (\<lambda>x. x \<noteq> c) (before @ c # rest) = c # rest"
  using assms by (induction before) auto

lemma up_to_last_span:
  assumes "c \<notin> set after"
  shows "up_to_last c (inner @ c # after) = inner @ [c]"
proof -
  have "dropWhile (\<lambda>x. x \<noteq> c) (rev after @ c # rev inner) = c # rev inner"
    using assms by (intro dropWhile_until) simp
  then show ?thesis by (simp add: up_to_last_def)
qed

lemma jsonMatch_span:
  assumes "lbrace \<notin> set before" and "rbrace \<notin> set after"
  shows "jsonMatch (before @ lbrace # inner @ rbrace # after) = Some (lbrace # inner @ [rbrace])"
  using assms by (simp add: jsonMatch_def dropWhile_until up_to_last_span)

lemma jsonMatch_no_brace:
  assumes "lbrace \<notin> set content"
  shows "jsonMatch content = None"
proof -
  have h: "dropWhile (\<lambda>x. x \<noteq> lbrace) content = []"
    using assms by (induction content) auto
  show ?thesis by (simp only: jsonMatch_def h list.case)
qed

text \<open>
  C10 (as amended). Let the text handed to \<open>JSON.parse\<close> be the span from the first \<open>{\<close> to
  the last \<open>}\<close> of the reply, or the whole reply when there is no such span. When it parses
  to a value other than \<open>null\<close> that has no \<open>prompt\<close> member, the route answers with status
  200 and no \<open>prompt\<close> at all. The reply itself is sent as the prompt exactly when the
  \<open>try\<close> block throws: when \<open>JSON.parse\<close> throws, or when it yields \<open>null\<close>, whose member
  cannot be read.
\<close>

theorem directive_reply_parse:
  assumes "truthy_str (API_KEY e)"
    and "text' b = Some (JStr t)" and "audience b = Some (JStr a)"
    and "terms b = Some (JStr tm)" and "focus b = Some (JStr f)"
    and "t \<noteq> []" and "a \<noteq> []" and "tm \<noteq> []" and "f \<noteq> []"
    and "generateContent svc (systemPrompt t a tm f) = Inr content"
  shows "(\<forall>parsed. JSON_parse svc (parse_candidate content) = Some parsed \<and> parsed \<noteq> JNull
            \<and> \<not> has_member (lit ''prompt'') parsed
          \<longrightarrow> fst (api_generate_prompt e svc b)
                = Inr \<lparr>status_code = 200, payload = PromptJson None\<rparr>)
    \<and> ((\<exists>err. parsed_prompt svc content = Inl err)
         \<longleftrightarrow> (JSON_parse svc (parse_candidate content) = None
              \<or> JSON_parse svc (parse_candidate content) = Some JNull))
    \<and> ((\<exists>err. parsed_prompt svc content = Inl err)
         \<longrightarrow> fst (api_generate_prompt e svc b)
               = Inr \<lparr>status_code = 200, payload = PromptJson (Some (JStr content))\<rparr>)"
proof -
  have resp: "fst (api_generate_prompt e svc b)
      = Inr (json_reply (PromptJson (reply_prompt svc content)))"
    using assms by (simp add: api_generate_prompt_def missing_required_parameters_def build_systemPrompt_strings)
  have 1: "fst (api_generate_prompt e svc b)
      = Inr \<lparr>status_code = 200, payload = PromptJson None\<rparr>"
    if "JSON_parse svc (parse_candidate content) = Some parsed" "parsed \<noteq> JNull"
       "\<not> has_member (lit ''prompt'') parsed" for parsed
    using that resp
    by (cases parsed)
       (simp_all add: reply_prompt_def parsed_prompt_def has_member_def json_reply_def)
  have 2: "(\<exists>err. parsed_prompt svc content = Inl err)
         \<longleftrightarrow> (JSON_parse svc (parse_candidate content) = None
              \<or> JSON_parse svc (parse_candidate content) = Some JNull)"
  proof (cases "JSON_parse svc (parse_candidate content)")
    case None
    then show ?thesis by (simp add: parsed_prompt_def)
  next
    case (Some parsed)
    then show ?thesis by (cases parsed) (simp_all add: parsed_prompt_def)
  qed
  have 3: "fst (api_generate_prompt e svc b)
               = Inr \<lparr>status_code = 200, payload = PromptJson (Some (JStr content))\<rparr>"
    if "\<exists>err. parsed_prompt svc content = Inl err"
    using that resp by (auto simp add: reply_prompt_def json_reply_def)
  from 1 2 3 show ?thesis by blast
qed

theorem directive_reply_parse_witness:
  \<open>truthy_str (API_KEY configured)
   \<and> generateContent (scripted titled_reply None)
        (systemPrompt (lit ''Photosynthesis turns light into chemical energy.'')
            (lit ''Undergraduate'') (lit ''Include & Explain'') (lit ''Core scientific concepts''))
       = Inr titled_reply
   \<and> parse_candidate titled_reply = lit ''{"title": "Photosynthesis"}''
   \<and> JSON_parse (scripted titled_reply None) (parse_candidate titled_reply)
       = Some (JObj [(lit ''title'', JStr (lit ''Photosynthesis''))])
   \<and> fst (api_generate_prompt configured (scripted titled_reply None) sample_body)
       = Inr \<lparr>status_code = 200, payload = PromptJson None\<rparr>\<close>
proof -
  have g: "generateContent (scripted titled_reply None)
        (systemPrompt (lit ''Photosynthesis turns light into chemical energy.'')
            (lit ''Undergraduate'') (lit ''Include & Explain'') (lit ''Core scientific concepts''))
       = Inr titled_reply"
    by (simp add: scripted_def)
  have c: \<open>parse_candidate titled_reply = lit ''{"title": "Photosynthesis"}''\<close>
    by (simp add: parse_candidate_def jsonMatch_def up_to_last_def titled_reply_def
        lbrace_def rbrace_def lit_def)
  have p: \<open>JSON_parse (scripted titled_reply None) (parse_candidate titled_reply)
       = Some (JObj [(lit ''title'', JStr (lit ''Photosynthesis''))])\<close>
    unfolding c by (simp add: scripted_def sample_parse_def lit_def)
  have m: "\<not> has_member (lit ''prompt'') (JObj [(lit ''title'', JStr (lit ''Photosynthesis''))])"
    by (simp add: has_member_def lit_def)
  have "fst (api_generate_prompt configured (scripted titled_reply None) sample_body)
       = Inr \<lparr>status_code = 200, payload = PromptJson None\<rparr>"
    using directive_reply_parse [OF configured_key, of sample_body
        "lit ''Photosynthesis turns light into chemical energy.''" "lit ''Undergraduate''"
        "lit ''Include & Explain''" "lit ''Core scientific concepts''"
        "scripted titled_reply None" titled_reply] g p m
    by (simp add: sample_body_def)
  with configured_key g c p show ?thesis by blast
qed

text \<open>
  C10 as stated fails for the reply \<open>null\<close>: it is well-formed JSON without a \<open>prompt\<close>
  member and \<open>JSON.parse\<close> does not throw, yet the route sends the raw reply as the prompt.
\<close>

theorem null_reply_returned_raw:
  "parse_candidate (lit ''null'') = lit ''null''
   \<and> JSON_parse (scripted (lit ''null'') None) (parse_candidate (lit ''null'')) = Some JNull
   \<and> \<not> has_member (lit ''prompt'') JNull
   \<and> fst (api_generate_prompt configured (scripted (lit ''null'') None) sample_body)
       = Inr \<lparr>status_code = 200, payload = PromptJson (Some (JStr (lit ''null'')))\<rparr>"
proof -
  have c: "parse_candidate (lit ''null'') = lit ''null''"
    by (simp add: parse_candidate_def jsonMatch_def lbrace_def lit_def)
  have p: "JSON_parse (scripted (lit ''null'') None) (parse_candidate (lit ''null'')) = Some JNull"
    unfolding c by (simp add: scripted_def sample_parse_def)
  have r: "reply_prompt (scripted (lit ''null'') None) (lit ''null'') = Some (JStr (lit ''null''))"
    using p by (simp add: reply_prompt_def parsed_prompt_def)
  have "fst (api_generate_prompt configured (scripted (lit ''null'') None) sample_body)
       = Inr \<lparr>status_code = 200, payload = PromptJson (Some (JStr (lit ''null'')))\<rparr>"
    using configured_key r
    by (simp add: api_generate_prompt_def missing_required_parameters_def sample_body_def build_systemPrompt_strings)
       (simp add: scripted_def json_reply_def)
  with c p show ?thesis by (simp add: has_member_def)
qed

subsection \<open>The image route\<close>

lemma is_image_part_eq:
  "is_image_part p = (if p = JNull then Inl TypeError else Inr (image_part p))"
  by (cases p) (simp_all add: is_image_part_def image_part_def)

lemma image_part_JNull [simp]: "\<not> image_part JNull"
  by (simp add: image_part_def)

lemma find_part_eq:
  "find_part ps = (if null_before_image ps then Inl TypeError else Inr (find image_part ps))"
  by (induction ps) (auto simp add: is_image_part_eq null_before_image_def)

lemma found_part_url:
  assumes "image_part p"
  shows "(if \<not> truthy (Some p) then Inl (Error (lit ''No image data in response''))
          else and_then (get_member (lit ''inlineData'') (Some p)) (\<lambda>inlineData.
              if \<not> truthy inlineData then Inl (Error (lit ''No image data in response''))
              else and_then (get_member (lit ''data'') inlineData) (\<lambda>imageData.
                and_then (template imageData) (\<lambda>data.
                  Inr (lit ''data:image/png;base64,'' @ data)))))
         = and_then (template (inline_payload p)) (\<lambda>data.
             Inr (lit ''data:image/png;base64,'' @ data))"
proof (cases p)
  case (JObj kvs)
  with assms have t: "truthy (map_of kvs (lit ''inlineData''))"
    by (simp add: image_part_def)
  then obtain v where v: "map_of kvs (lit ''inlineData'') = Some v"
    by (cases "map_of kvs (lit ''inlineData'')") auto
  with t show ?thesis using JObj
    by (cases v) (simp_all add: and_then_def inline_payload_def)
qed (use assms in \<open>simp_all add: image_part_def\<close>)

lemma image_url_recognised:
  assumes "response_parts d = Some ps"
  shows "image_url d =
     (if null_before_image ps then Inl TypeError
      else case find image_part ps of
             None \<Rightarrow> Inl (Error (lit ''No image data in response''))
           | Some p \<Rightarrow> and_then (template (inline_payload p)) (\<lambda>data.
                        Inr (lit ''data:image/png;base64,'' @ data)))"
proof -
  from assms obtain root cands c ct where
    d: "d = Some (JObj root)" and
    cands: "map_of root (lit ''candidates'') = Some cands" and
    c: "index0 cands = Some (JObj c)" and
    ct: "map_of c (lit ''content'') = Some (JObj ct)" and
    ps: "map_of ct (lit ''parts'') = Some (JArr ps)"
    by (auto simp add: response_parts_def split: option.splits json.splits)
  have tc: "truthy (Some cands)"
    using c by (cases cands) (auto split: list.splits)
  have fc: "first_candidate d = Some (JObj c)"
    using d cands c tc by (simp add: first_candidate_def)
  show ?thesis
  proof (cases "null_before_image ps")
    case True
    then show ?thesis
      using fc ct ps by (simp add: image_url_def and_then_def parts_find_def find_part_eq)
  next
    case False
    show ?thesis
    proof (cases "find image_part ps")
      case None
      then show ?thesis
        using False fc ct ps
        by (simp add: image_url_def and_then_def parts_find_def find_part_eq)
    next
      case (Some p)
      then have "image_part p" by (auto simp add: find_Some_iff)
      from found_part_url [OF this] show ?thesis
        using False Some fc ct ps
        by (simp add: image_url_def and_then_def parts_find_def find_part_eq)
    qed
  qed
qed


lemma first_image_part_position:
  assumes "find image_part ps = Some part"
  shows "\<exists>before after. ps = before @ part # after \<and> image_part part
           \<and> (\<forall>q \<in> set before. \<not> image_part q)
           \<and> (null_before_image ps \<longleftrightarrow> JNull \<in> set before)"
proof -
  from assms obtain i where i: "i < length ps" "image_part (ps ! i)" "part = ps ! i"
    "\<forall>j<i. \<not> image_part (ps ! j)"
    by (auto simp add: find_Some_iff)
  have tw: "takeWhile (\<lambda>p. \<not> image_part p) ps = take i ps"
    using i by (intro takeWhile_eq_take_P_nth) auto
  have "ps = take i ps @ part # drop (Suc i) ps"
    using i by (simp add: id_take_nth_drop)
  moreover have "\<forall>q \<in> set (take i ps). \<not> image_part q"
    using tw by (metis set_takeWhileD)
  moreover have "null_before_image ps \<longleftrightarrow> JNull \<in> set (take i ps)"
    by (simp add: null_before_image_def tw)
  ultimately show ?thesis using i by blast
qed


text \<open>A call to the image model that throws is answered with status 500 as well.\<close>

lemma image_call_throws:
  assumes "truthy_str (API_KEY e)" and "prompt b = Some p" and "truthy (Some p)"
    and "image_post svc (API_KEY e) p = Inl err"
  shows "api_generate_infographic e svc b = (infographic_failed err, [CallImage p])"
  using assms by (simp add: api_generate_infographic_def and_then_def)


lemma response_parts_with_parts: "response_parts (Some (with_parts ps)) = Some ps"
  by (simp add: response_parts_def with_parts_def lit_def)

lemma sample_parts:
  "image_part image_only" "image_part second_image" "image_part unprintable_part"
  "image_part empty_inline_part"
  "\<not> image_part thinking_part" "\<not> image_part draft_part" "\<not> image_part caption_part"
  "\<not> image_part refusal_part"
  by (simp_all add: image_part_def image_only_def second_image_def unprintable_part_def
      empty_inline_part_def thinking_part_def draft_part_def caption_part_def refusal_part_def
      inline_image_def lit_def)

lemma sample_parts_not_null:
  "thinking_part \<noteq> JNull" "draft_part \<noteq> JNull" "caption_part \<noteq> JNull" "refusal_part \<noteq> JNull"
  by (simp_all add: thinking_part_def draft_part_def caption_part_def refusal_part_def)





section \<open>Properties of the client\<close>

subsection \<open>Routing of the client's requests\<close>

lemma post_not_static: "req_method req = POST \<Longrightarrow> app e svc req = routes e svc req"
  by (simp add: app_def static_page_def)

text \<open>\<open>express.static\<close> serves requests only in production and only for \<open>GET\<close>; a directory of
  the client build is answered with a redirection, not with a page.\<close>

lemma static_directory_redirects:
  assumes "NODE_ENV e = Some (lit ''production'')" and "req_method req = GET"
    and "dist_file svc (req_path req) = Some Directory"
  shows "app e svc req
           = (\<lparr>status_code = 301, payload = Redirect (req_path req @ lit ''/'')\<rparr>, [])"
  using assms by (simp add: app_def static_page_def)

lemma route_upload: "app e svc (uploadPDF f) = api_upload svc f"
  by (simp add: post_not_static uploadPDF_def routes_def route_def lower_def lit_def)

lemma route_generate_prompt:
  "app e svc (generatePrompt t a tm f l sn)
     = settle svc (api_generate_prompt e svc (req_body (generatePrompt t a tm f l sn)))"
  by (simp add: post_not_static generatePrompt_def routes_def route_def lower_def lit_def)

text \<open>The members of a request built by \<open>generatePrompt\<close> are strings or absent, so the handler
  of the directive route never rejects on it.\<close>

lemma client_request_settles:
  "\<exists>res calls. api_generate_prompt e svc (req_body (generatePrompt t a tm f l sn)) = (Inr res, calls)"
  by (cases t; cases a; cases tm; cases f)
     (auto simp add: api_generate_prompt_def missing_required_parameters_def generatePrompt_def build_systemPrompt_strings
       template_def split: sum.splits)

lemma route_generate_infographic:
  "app e svc ((generateInfographic p)\<lparr>req_path := strip_origin (req_path (generateInfographic p))\<rparr>)
     = api_generate_infographic e svc (empty_body\<lparr>prompt := p\<rparr>)"
  by (simp add: post_not_static generateInfographic_def routes_def route_def lower_def lit_def
      strip_origin_def API_URL_def Let_def)

lemma route_process_text:
  "app e svc (processText t) = (\<lparr>status_code = 404, payload = DefaultPage\<rparr>, [])"
  by (simp add: post_not_static processText_def routes_def route_def lower_def lit_def)

lemma decimal_404: "decimal 404 = lit ''404''"
  by (simp add: lit_def)

lemma decimal_500: "decimal 500 = lit ''500''"
  by (simp add: lit_def)

lemma strip_relative:
  "strip_origin (lit ''/api/process-text'') = lit ''/api/process-text''"
  "strip_origin (lit ''/api/upload'') = lit ''/api/upload''"
  "strip_origin (lit ''/api/generate-prompt'') = lit ''/api/generate-prompt''"
  by (simp_all add: strip_origin_def Let_def lit_def)

lemma axios_process_text:
  "axios_post e svc (processText t) = Inl (lit ''Request failed with status code 404'')"
proof -
  have "(processText t)\<lparr>req_path := strip_origin (req_path (processText t))\<rparr> = processText t"
    by (simp add: processText_def strip_relative)
  then show ?thesis
    by (simp add: axios_post_def route_process_text decimal_404 del: decimal.simps)
       (simp add: lit_def)
qed

lemma unconfigured_key: "\<not> truthy_str (API_KEY unconfigured)"
  by (simp add: unconfigured_def API_KEY_def js_or_def truthy_str_def)

lemma axios_upload_small:
  assumes "pdfParse svc (buffer small_pdf) = Inr t"
  shows "axios_post e svc (uploadPDF (Some small_pdf)) = Inr (TextJson t)"
proof -
  have "(uploadPDF (Some small_pdf))\<lparr>req_path := strip_origin (req_path (uploadPDF (Some small_pdf)))\<rparr>
      = uploadPDF (Some small_pdf)"
    by (simp add: uploadPDF_def strip_relative)
  moreover have "api_upload svc (Some small_pdf)
      = (json_reply (TextJson t), [CallPdfParse (buffer small_pdf)])"
    using assms
    by (simp add: api_upload_def upload_single_def small_pdf_def file_size_def fileSize_limit_def)
  ultimately show ?thesis
    by (simp add: axios_post_def route_upload json_reply_def)
qed

lemma axios_prompt_mock:
  "axios_post unconfigured reading
     (generatePrompt (Some (lit ''Photosynthesis turns light into chemical energy.''))
        (audience (options initial_state)) (terms (options initial_state))
        (focus (options initial_state)) (language (options initial_state))
        (styleNotes (options initial_state)))
     = Inr (PromptJson (Some (JStr (lit ''Mock prompt for General public''))))"
proof -
  let ?r = "generatePrompt (Some (lit ''Photosynthesis turns light into chemical energy.''))
        (audience (options initial_state)) (terms (options initial_state))
        (focus (options initial_state)) (language (options initial_state))
        (styleNotes (options initial_state))"
  have "?r\<lparr>req_path := strip_origin (req_path ?r)\<rparr> = ?r"
    by (simp add: generatePrompt_def strip_relative)
  moreover have "fst (app unconfigured reading ?r)
      = json_reply (PromptJson (Some (JStr (lit ''Mock prompt for General public''))))"
    using unconfigured_key unfolding route_generate_prompt
    by (simp add: settle_def generatePrompt_def api_generate_prompt_def missing_required_parameters_def
        build_systemPrompt_strings template_def initial_state_def)
       (simp add: lit_def)
  ultimately show ?thesis
    by (simp add: axios_post_def json_reply_def)
qed

lemma axios_image_mock:
  "truthy p \<Longrightarrow> axios_post unconfigured reading (generateInfographic p) = Inr (ImageJson mockImageUrl)"
  using unconfigured_key
  by (cases p) (simp_all add: axios_post_def route_generate_infographic
      api_generate_infographic_def json_reply_def)

lemma mockImageUrl_not_empty: "mockImageUrl \<noteq> []"
  by (simp add: mockImageUrl_def)

lemma reading_pdf:
  "pdfParse reading (buffer small_pdf) = Inr (lit ''Photosynthesis turns light into chemical energy.'')"
  "pdfParse no_image (buffer small_pdf) = Inr (lit ''Photosynthesis turns light into chemical energy.'')"
  by (simp_all add: reading_def no_image_def)

subsection \<open>Text input\<close>

lemma trim_empty: "trim s = [] \<longleftrightarrow> (\<forall>c \<in> set s. is_space c)"
proof (cases "\<forall>c \<in> set s. is_space c")
  case True
  then have "dropWhile is_space s = []"
    by (simp add: dropWhile_eq_Nil_conv)
  then have "trim s = []"
    by (simp only: trim_def rev.simps dropWhile.simps)
  with True show ?thesis by simp
next
  case False
  then have ne: "dropWhile is_space s \<noteq> []"
    by (simp add: dropWhile_eq_Nil_conv)
  then obtain x xs where xs: "dropWhile is_space s = x # xs"
    by (cases "dropWhile is_space s") auto
  have "\<not> is_space x"
    using hd_dropWhile [OF ne] xs by simp
  then have "dropWhile is_space (rev (x # xs)) \<noteq> []"
    by (auto simp add: dropWhile_eq_Nil_conv)
  then have "trim s \<noteq> []"
    unfolding trim_def xs by (simp only: rev_is_Nil_conv not_False_eq_True)
  with False show ?thesis by simp
qed

lemma pasted_text_not_blank: "trim pasted_text \<noteq> []"
  by (simp add: trim_empty pasted_text_def is_space_def)

lemma text_run_fails:
  assumes "inputMode s = TextMode" and "trim (textInput s) \<noteq> []"
  shows "startProcess (axios_post e svc) s
           = (s\<lparr>step := 3, status := lit ''Processing your text...'',
                 error := lit ''An error occurred: Request failed with status code 404''\<rparr>,
              [processText (textInput s)])"
proof -
  have tb: "try_block (axios_post e svc) (s\<lparr>step := 3, error := []\<rparr>)
      = (Some (lit ''Request failed with status code 404''),
         s\<lparr>step := 3, error := [], status := lit ''Processing your text...''\<rparr>,
         [processText (textInput s)])"
    using assms(1) by (simp add: try_block_def Let_def axios_process_text)
  have ne: "lit ''Request failed with status code 404'' \<noteq> []"
    by simp
  have cat: "lit ''An error occurred: '' @ lit ''Request failed with status code 404''
      = lit ''An error occurred: Request failed with status code 404''"
    by (simp add: lit_def)
  show ?thesis
    using assms by (simp add: startProcess_def tb ne cat)
qed

text \<open>In text mode no request other than the one to \<open>/api/process-text\<close> is ever sent, and
  below 100 characters the Continue button is disabled.\<close>

lemma short_text_gated:
  assumes "inputMode s = TextMode" and "length (textInput s) < 100"
  shows "continue_disabled s"
  using assms by (simp add: continue_disabled_def)

lemma blank_text_not_started:
  assumes "inputMode s = TextMode" and "trim (textInput s) = []"
  shows "startProcess post s = (s\<lparr>error := lit ''Please enter some text first.''\<rparr>, [])"
  using assms by (simp add: startProcess_def)

lemma text_mode_never_reaches_synthesizer:
  assumes "inputMode s = TextMode"
  shows "set (snd (startProcess (axios_post e svc) s)) \<subseteq> {processText (textInput s)}"
proof (cases "trim (textInput s) = []")
  case True
  then show ?thesis using assms by (simp add: blank_text_not_started)
next
  case False
  then show ?thesis using assms by (simp add: text_run_fails)
qed

text \<open>
  C1. A pasted text of 100 characters enables the Continue button, and \<open>startProcess\<close> posts
  it to \<open>/api/process-text\<close>. The server has no such route: Express answers 404, axios
  throws, and the run ends at step 3 with the error text below. The text is not returned
  and the directive route is never called.
\<close>

theorem text_submission_unrouted:
  "length pasted_text = 100
   \<and> \<not> continue_disabled ((text_state pasted_text)\<lparr>step := 1\<rparr>)
   \<and> app e svc (processText pasted_text) = (\<lparr>status_code = 404, payload = DefaultPage\<rparr>, [])
   \<and> startProcess (axios_post e svc) (text_state pasted_text)
       = ((text_state pasted_text)\<lparr>step := 3, status := lit ''Processing your text...'',
            error := lit ''An error occurred: Request failed with status code 404''\<rparr>,
          [processText pasted_text])"
proof -
  have m: "inputMode (text_state pasted_text) = TextMode"
    and t: "textInput (text_state pasted_text) = pasted_text"
    by (simp_all add: text_state_def)
  have "startProcess (axios_post e svc) (text_state pasted_text)
       = ((text_state pasted_text)\<lparr>step := 3, status := lit ''Processing your text...'',
            error := lit ''An error occurred: Request failed with status code 404''\<rparr>,
          [processText pasted_text])"
    using text_run_fails [of "text_state pasted_text" e svc] m t pasted_text_not_blank by simp
  moreover have "\<not> continue_disabled ((text_state pasted_text)\<lparr>step := 1\<rparr>)"
    by (simp add: continue_disabled_def text_state_def pasted_text_def)
  moreover have "length pasted_text = 100"
    by (simp add: pasted_text_def)
  ultimately show ?thesis
    by (simp add: route_process_text)
qed

subsection \<open>File size\<close>

lemma big_pdf_size: "file_size big_pdf = 30 * 1024 * 1024"
  by (simp add: file_size_def big_pdf_def)

lemma big_pdf_type: "mimetype big_pdf = lit ''application/pdf''"
  by (simp add: big_pdf_def)

lemma oversized_rejected_on_selection:
  assumes "50 * 1024 * 1024 < file_size f"
  shows "handleFileUpload (Some f) s = s\<lparr>error := lit ''File size exceeds 50MB limit.''\<rparr>"
  using assms by (simp add: handleFileUpload_def)

lemma large_warned_on_selection:
  assumes "25 * 1024 * 1024 < file_size f" and "file_size f \<le> 50 * 1024 * 1024"
    and "mimetype f = lit ''application/pdf''"
  shows "handleFileUpload (Some f) s = s\<lparr>error := large_file_warning, file' := Some f\<rparr>"
  using assms by (simp add: handleFileUpload_def)

lemma upload_over_limit:
  assumes "mimetype f = lit ''application/pdf''" and "fileSize_limit < file_size f"
  shows "api_upload svc (Some f) = (\<lparr>status_code = 500, payload = DefaultPage\<rparr>, [])"
  using assms by (simp add: api_upload_def upload_single_def)

lemma axios_upload_over_limit:
  assumes "mimetype f = lit ''application/pdf''" and "fileSize_limit < file_size f"
  shows "axios_post e svc (uploadPDF (Some f)) = Inl (lit ''Request failed with status code 500'')"
proof -
  have "(uploadPDF (Some f))\<lparr>req_path := strip_origin (req_path (uploadPDF (Some f)))\<rparr>
      = uploadPDF (Some f)"
    by (simp add: uploadPDF_def strip_relative)
  then show ?thesis
    using upload_over_limit [OF assms]
    by (simp add: axios_post_def route_upload decimal_500 del: decimal.simps)
       (simp add: lit_def)
qed

lemma pdf_run_over_limit:
  assumes "inputMode s = PdfMode" and "file' s = Some f"
    and "mimetype f = lit ''application/pdf''" and "fileSize_limit < file_size f"
  shows "startProcess (axios_post e svc) s
           = (s\<lparr>step := 3, status := lit ''Uploading and analyzing PDF...'',
                 error := lit ''An error occurred: Request failed with status code 500''\<rparr>,
              [uploadPDF (Some f)])"
proof -
  have tb: "try_block (axios_post e svc) (s\<lparr>step := 3, error := []\<rparr>)
      = (Some (lit ''Request failed with status code 500''),
         s\<lparr>step := 3, error := [], status := lit ''Uploading and analyzing PDF...''\<rparr>,
         [uploadPDF (Some f)])"
    using assms(1,2) axios_upload_over_limit [OF assms(3,4)]
    by (simp add: try_block_def Let_def)
  have ne: "lit ''Request failed with status code 500'' \<noteq> []"
    by simp
  have cat: "lit ''An error occurred: '' @ lit ''Request failed with status code 500''
      = lit ''An error occurred: Request failed with status code 500''"
    by (simp add: lit_def)
  show ?thesis
    using assms(1,2) by (simp add: startProcess_def tb ne cat)
qed

lemma oversized_leaves_no_file:
  assumes "50 * 1024 * 1024 < file_size f"
  shows "continue_disabled (handleFileUpload (Some f) initial_state)"
  using assms
  by (simp add: oversized_rejected_on_selection continue_disabled_def initial_state_def)

text \<open>
  C2. A PDF of 30 MB is above the client's warning threshold of 25 MB and below its limit
  of 50 MB: \<open>handleFileUpload\<close> accepts it with the warning. The server's multer limit is
  10 MB: the upload is answered with status 500 before \<open>pdfParse\<close> is called, and the run
  ends at step 3 with the error text below. The document is rejected, not only warned
  about.
\<close>

theorem large_pdf_warned_then_rejected:
  "file_size big_pdf = 30 * 1024 * 1024
   \<and> handleFileUpload (Some big_pdf) initial_state
       = initial_state\<lparr>error := large_file_warning, file' := Some big_pdf\<rparr>
   \<and> app e svc (uploadPDF (Some big_pdf)) = (\<lparr>status_code = 500, payload = DefaultPage\<rparr>, [])
   \<and> startProcess (axios_post e svc) (ready_state big_pdf)
       = ((ready_state big_pdf)\<lparr>step := 3, status := lit ''Uploading and analyzing PDF...'',
            error := lit ''An error occurred: Request failed with status code 500''\<rparr>,
          [uploadPDF (Some big_pdf)])"
proof -
  have lim: "fileSize_limit < file_size big_pdf"
    by (simp add: big_pdf_size fileSize_limit_def)
  have 1: "handleFileUpload (Some big_pdf) initial_state
       = initial_state\<lparr>error := large_file_warning, file' := Some big_pdf\<rparr>"
    by (rule large_warned_on_selection) (simp_all add: big_pdf_size big_pdf_type)
  have 2: "app e svc (uploadPDF (Some big_pdf)) = (\<lparr>status_code = 500, payload = DefaultPage\<rparr>, [])"
    by (simp add: route_upload upload_over_limit [OF big_pdf_type lim])
  have 3: "startProcess (axios_post e svc) (ready_state big_pdf)
       = ((ready_state big_pdf)\<lparr>step := 3, status := lit ''Uploading and analyzing PDF...'',
            error := lit ''An error occurred: Request failed with status code 500''\<rparr>,
          [uploadPDF (Some big_pdf)])"
    by (rule pdf_run_over_limit [OF _ _ big_pdf_type lim])
       (simp_all add: ready_state_def initial_state_def)
  from 1 2 3 show ?thesis by (simp add: big_pdf_size)
qed

subsection \<open>The run as a whole\<close>

lemma try_block_cases:
  assumes "try_block post s = (r, s', sent)"
  shows "(r = None \<and> step s' = 4 \<and> status s' = lit ''Completed!'' \<and> error s' = error s
            \<and> resultImage s' \<noteq> [] \<and> length sent = 3
            \<and> (\<exists>d. post (last sent) = Inr d \<and> data_imageUrl d = Some (resultImage s')))
       \<or> (\<exists>m. r = Some m \<and> step s' = step s \<and> resultImage s' = resultImage s \<and> sent \<noteq> []
            \<and> error s' = error s
            \<and> (post (last sent) = Inl m
                \<or> (m = lit ''No image URL returned from server'' \<and> length sent = 3
                    \<and> (\<exists>d. post (last sent) = Inr d \<and> \<not> truthy_str (data_imageUrl d)))))"
proof -
  define r1 where "r1 = (if inputMode s = PdfMode then uploadPDF (file' s)
                         else processText (textInput s))"
  show ?thesis
  proof (cases "post r1")
    case (Inl m)
    then show ?thesis
      using assms by (auto simp add: try_block_def Let_def r1_def [symmetric])
  next
    case d1: (Inr d1)
    define r2 where "r2 = generatePrompt (data_text d1) (audience (options s)) (terms (options s))
                         (focus (options s)) (language (options s)) (styleNotes (options s))"
    show ?thesis
    proof (cases "post r2")
      case (Inl m)
      then show ?thesis
        using assms d1
        by (auto simp add: try_block_def Let_def r1_def [symmetric] r2_def [symmetric])
    next
      case d2: (Inr d2)
      define r3 where "r3 = generateInfographic (data_prompt d2)"
      show ?thesis
      proof (cases "post r3")
        case (Inl m)
        then show ?thesis
          using assms d1 d2
          by (auto simp add: try_block_def Let_def r1_def [symmetric] r2_def [symmetric]
              r3_def [symmetric])
      next
        case d3: (Inr d3)
        show ?thesis
        proof (cases "data_imageUrl d3")
          case None
          then show ?thesis
            using assms d1 d2 d3
            by (auto simp add: try_block_def Let_def r1_def [symmetric] r2_def [symmetric]
                r3_def [symmetric] truthy_str_def)
        next
          case (Some u)
          then show ?thesis
            using assms d1 d2 d3
            by (cases "u = []")
               (auto simp add: try_block_def Let_def r1_def [symmetric] r2_def [symmetric]
                r3_def [symmetric] truthy_str_def)
        qed
      qed
    qed
  qed
qed

lemma Complete_not_Failed: "\<not> (Complete s \<and> Failed m s)"
  by (simp add: Complete_def Failed_def)

lemma not_started_sends_nothing:
  assumes "\<not> started s"
  shows "snd (startProcess post s) = [] \<and> step (fst (startProcess post s)) = step s
         \<and> resultImage (fst (startProcess post s)) = resultImage s"
  using assms by (auto simp add: started_def startProcess_def)

text \<open>
  Every started run of \<open>startProcess\<close>, whatever the three requests return or throw, ends in
  one of two ways. Either it is complete: step 4, status \<open>Completed!\<close>, no error, and the
  image shown is the non-empty \<open>imageUrl\<close> of the last response. Or it has failed: step 3,
  no image shown, the stored image untouched, and the one error text shown is
  \<open>An error occurred: \<close> followed by the \<open>message\<close> of the error that the last request sent
  threw in the client, or by \<open>No image URL returned from server\<close> when that response had
  none.
\<close>

lemma run_ends_complete_or_failed:
  assumes "started s" and "startProcess post s = (s', sent)"
  shows "(Complete s' \<and> shown_image s' = Some (resultImage s') \<and> shown_error s' = None
            \<and> (\<exists>d. post (last sent) = Inr d \<and> data_imageUrl d = Some (resultImage s')))
       \<or> (\<exists>m. Failed m s' \<and> shown_image s' = None \<and> shown_error s' = Some (error s')
            \<and> resultImage s' = resultImage s
            \<and> (post (last sent) = Inl m
                \<or> (m = lit ''No image URL returned from server''
                    \<and> (\<exists>d. post (last sent) = Inr d \<and> \<not> truthy_str (data_imageUrl d)))))"
proof -
  obtain r s1 where tb: "try_block post (s\<lparr>step := 3, error := []\<rparr>) = (r, s1, sent)"
    and s': "s' = (case r of None \<Rightarrow> s1
                   | Some m \<Rightarrow> s1\<lparr>error := lit ''An error occurred: ''
                              @ (if m = [] then lit ''Unknown error'' else m)\<rparr>)"
    using assms
    by (cases "try_block post (s\<lparr>step := 3, error := []\<rparr>)")
       (auto simp add: startProcess_def started_def split: option.splits)
  from try_block_cases [OF tb] show ?thesis
  proof
    assume "r = None \<and> step s1 = 4 \<and> status s1 = lit ''Completed!''
        \<and> error s1 = error (s\<lparr>step := 3, error := []\<rparr>)
        \<and> resultImage s1 \<noteq> [] \<and> length sent = 3
        \<and> (\<exists>d. post (last sent) = Inr d \<and> data_imageUrl d = Some (resultImage s1))"
    then show ?thesis
      using s' by (auto simp add: Complete_def shown_image_def shown_error_def)
  next
    assume "\<exists>m. r = Some m \<and> step s1 = step (s\<lparr>step := 3, error := []\<rparr>)
        \<and> resultImage s1 = resultImage (s\<lparr>step := 3, error := []\<rparr>) \<and> sent \<noteq> []
        \<and> error s1 = error (s\<lparr>step := 3, error := []\<rparr>)
        \<and> (post (last sent) = Inl m
            \<or> (m = lit ''No image URL returned from server'' \<and> length sent = 3
                \<and> (\<exists>d. post (last sent) = Inr d \<and> \<not> truthy_str (data_imageUrl d))))"
    then obtain m where m: "r = Some m" "step s1 = 3" "resultImage s1 = resultImage s"
      "post (last sent) = Inl m
         \<or> (m = lit ''No image URL returned from server''
             \<and> (\<exists>d. post (last sent) = Inr d \<and> \<not> truthy_str (data_imageUrl d)))"
      by auto
    have "Failed m s'" using m s' by (simp add: Failed_def)
    moreover have "shown_image s' = None" using m s' by (simp add: shown_image_def)
    moreover have "shown_error s' = Some (error s')"
      using m s' by (simp add: shown_error_def)
    moreover have "resultImage s' = resultImage s" using m s' by simp
    ultimately show ?thesis using m by blast
  qed
qed

lemma mock_run:
  "startProcess (axios_post unconfigured reading) (ready_state small_pdf)
     = ((ready_state small_pdf)\<lparr>step := 4, status := lit ''Completed!'',
          pdfText := Some (lit ''Photosynthesis turns light into chemical energy.''),
          resultImage := mockImageUrl\<rparr>,
        [uploadPDF (Some small_pdf),
         generatePrompt (Some (lit ''Photosynthesis turns light into chemical energy.''))
           (Some (lit ''General public'')) (Some (lit ''Include & Explain''))
           (Some (lit ''Balanced overview'')) (Some (lit ''Deutsch'')) (Some []),
         generateInfographic (Some (JStr (lit ''Mock prompt for General public'')))])"
proof -
  have o: "options (ready_state small_pdf\<lparr>step := 3, error := []\<rparr>) = options initial_state"
    and f: "file' (ready_state small_pdf\<lparr>step := 3, error := []\<rparr>) = Some small_pdf"
    and m: "inputMode (ready_state small_pdf\<lparr>step := 3, error := []\<rparr>) = PdfMode"
    by (simp_all add: ready_state_def initial_state_def)
  have tb: "try_block (axios_post unconfigured reading) (ready_state small_pdf\<lparr>step := 3, error := []\<rparr>)
     = (None,
        (ready_state small_pdf)\<lparr>step := 4, status := lit ''Completed!'',
          pdfText := Some (lit ''Photosynthesis turns light into chemical energy.''),
          resultImage := mockImageUrl, error := []\<rparr>,
        [uploadPDF (Some small_pdf),
         generatePrompt (Some (lit ''Photosynthesis turns light into chemical energy.''))
           (audience (options initial_state)) (terms (options initial_state))
           (focus (options initial_state)) (language (options initial_state))
           (styleNotes (options initial_state)),
         generateInfographic (Some (JStr (lit ''Mock prompt for General public'')))])"
    by (simp add: try_block_def Let_def o f m axios_upload_small [OF reading_pdf(1)] axios_prompt_mock
        axios_image_mock data_text_def data_prompt_def data_imageUrl_def mockImageUrl_not_empty)
  have e: "error (ready_state small_pdf) = []"
    by (simp add: ready_state_def initial_state_def)
  have s: "(ready_state small_pdf)\<lparr>step := 4, status := lit ''Completed!'',
          pdfText := Some (lit ''Photosynthesis turns light into chemical energy.''),
          resultImage := mockImageUrl, error := []\<rparr>
       = (ready_state small_pdf)\<lparr>step := 4, status := lit ''Completed!'',
          pdfText := Some (lit ''Photosynthesis turns light into chemical energy.''),
          resultImage := mockImageUrl\<rparr>"
    by (simp add: ready_state_def initial_state_def)
  show ?thesis
    using m f by (simp add: startProcess_def tb s) (simp add: initial_state_def)
qed

lemma started_ready: "started (ready_state f)"
  by (simp add: started_def ready_state_def initial_state_def)

subsection \<open>The error text of a failed run\<close>

lemma axios_prompt_live:
  "axios_post configured no_image
     (generatePrompt (Some (lit ''Photosynthesis turns light into chemical energy.''))
        (audience (options initial_state)) (terms (options initial_state))
        (focus (options initial_state)) (language (options initial_state))
        (styleNotes (options initial_state)))
     = Inr (PromptJson (Some (JStr (lit ''A poster about photosynthesis''))))"
proof -
  let ?r = "generatePrompt (Some (lit ''Photosynthesis turns light into chemical energy.''))
        (audience (options initial_state)) (terms (options initial_state))
        (focus (options initial_state)) (language (options initial_state))
        (styleNotes (options initial_state))"
  have "?r\<lparr>req_path := strip_origin (req_path ?r)\<rparr> = ?r"
    by (simp add: generatePrompt_def strip_relative)
  moreover have "reply_prompt no_image (lit ''A poster about photosynthesis'')
      = Some (JStr (lit ''A poster about photosynthesis''))"
    using plain_reply [of "Some text_only_response"]
    by (simp add: reply_prompt_def parsed_prompt_def no_image_def scripted_def)
  then have "fst (app configured no_image ?r)
      = json_reply (PromptJson (Some (JStr (lit ''A poster about photosynthesis''))))"
    using configured_key unfolding route_generate_prompt
    by (simp add: settle_def generatePrompt_def api_generate_prompt_def missing_required_parameters_def
        build_systemPrompt_strings initial_state_def)
       (simp add: no_image_def scripted_def)
  ultimately show ?thesis
    by (simp add: axios_post_def json_reply_def)
qed

lemma no_image_url:
  "image_url (Some text_only_response) = Inl (Error (lit ''No image data in response''))"
proof -
  have r: "response_parts (Some text_only_response) = Some [refusal_part]"
    by (simp add: text_only_response_def response_parts_with_parts)
  show ?thesis
    using image_url_recognised [OF r]
    by (simp add: null_before_image_def sample_parts sample_parts_not_null [symmetric])
qed

lemma image_reply_no_image:
  "truthy (Some p) \<Longrightarrow>
   app configured no_image
       ((generateInfographic (Some p))\<lparr>req_path := strip_origin (req_path (generateInfographic (Some p)))\<rparr>)
     = (error_reply 500 (lit ''Failed to generate infographic: '')
          (MessageOf (Error (lit ''No image data in response''))),
        [CallImage p])"
  using configured_key
  by (simp add: route_generate_infographic api_generate_infographic_def and_then_def
      no_image_def scripted_def no_image_url infographic_failed_def)

lemma axios_image_no_image:
  "truthy (Some p) \<Longrightarrow>
   axios_post configured no_image (generateInfographic (Some p))
     = Inl (lit ''Request failed with status code 500'')"
  by (simp add: axios_post_def image_reply_no_image error_reply_def decimal_500
      del: decimal.simps)
     (simp add: lit_def)

lemma upload_reply_unreadable:
  "app e (scripted reply img) (uploadPDF (Some small_pdf))
     = (error_reply 500 (lit ''Failed to parse PDF'') NoDetail, [CallPdfParse (buffer small_pdf)])"
  by (simp add: route_upload api_upload_def upload_single_def small_pdf_def file_size_def
      fileSize_limit_def scripted_def)

lemma axios_upload_unreadable:
  "axios_post e (scripted reply img) (uploadPDF (Some small_pdf))
     = Inl (lit ''Request failed with status code 500'')"
proof -
  have "(uploadPDF (Some small_pdf))\<lparr>req_path := strip_origin (req_path (uploadPDF (Some small_pdf)))\<rparr>
      = uploadPDF (Some small_pdf)"
    by (simp add: uploadPDF_def strip_relative)
  then show ?thesis
    by (simp add: axios_post_def upload_reply_unreadable error_reply_def decimal_500
        del: decimal.simps)
       (simp add: lit_def)
qed

lemma status_500_text:
  "lit ''An error occurred: '' @ lit ''Request failed with status code 500''
      = lit ''An error occurred: Request failed with status code 500''"
  by (simp add: lit_def)

lemma no_image_run:
  "startProcess (axios_post configured no_image) (ready_state small_pdf)
     = ((ready_state small_pdf)\<lparr>step := 3,
          status := lit ''Creating infographic with Nano Banana Pro...'',
          pdfText := Some (lit ''Photosynthesis turns light into chemical energy.''),
          error := lit ''An error occurred: Request failed with status code 500''\<rparr>,
        [uploadPDF (Some small_pdf),
         generatePrompt (Some (lit ''Photosynthesis turns light into chemical energy.''))
           (Some (lit ''General public'')) (Some (lit ''Include & Explain''))
           (Some (lit ''Balanced overview'')) (Some (lit ''Deutsch'')) (Some []),
         generateInfographic (Some (JStr (lit ''A poster about photosynthesis'')))])"
proof -
  have o: "options (ready_state small_pdf\<lparr>step := 3, error := []\<rparr>) = options initial_state"
    and f: "file' (ready_state small_pdf\<lparr>step := 3, error := []\<rparr>) = Some small_pdf"
    and m: "inputMode (ready_state small_pdf\<lparr>step := 3, error := []\<rparr>) = PdfMode"
    by (simp_all add: ready_state_def initial_state_def)
  have tb: "try_block (axios_post configured no_image) (ready_state small_pdf\<lparr>step := 3, error := []\<rparr>)
     = (Some (lit ''Request failed with status code 500''),
        (ready_state small_pdf)\<lparr>step := 3,
          status := lit ''Creating infographic with Nano Banana Pro...'',
          pdfText := Some (lit ''Photosynthesis turns light into chemical energy.''),
          error := []\<rparr>,
        [uploadPDF (Some small_pdf),
         generatePrompt (Some (lit ''Photosynthesis turns light into chemical energy.''))
           (audience (options initial_state)) (terms (options initial_state))
           (focus (options initial_state)) (language (options initial_state))
           (styleNotes (options initial_state)),
         generateInfographic (Some (JStr (lit ''A poster about photosynthesis'')))])"
    by (simp add: try_block_def Let_def o f m axios_upload_small [OF reading_pdf(2)]
        axios_prompt_live axios_image_no_image data_text_def data_prompt_def)
  have ne: "lit ''Request failed with status code 500'' \<noteq> []"
    by simp
  show ?thesis
    using m f by (simp add: startProcess_def tb ne status_500_text) (simp add: initial_state_def)
qed

lemma unreadable_run:
  "startProcess (axios_post configured (scripted [] None)) (ready_state small_pdf)
     = ((ready_state small_pdf)\<lparr>step := 3, status := lit ''Uploading and analyzing PDF...'',
          error := lit ''An error occurred: Request failed with status code 500''\<rparr>,
        [uploadPDF (Some small_pdf)])"
proof -
  have f: "file' (ready_state small_pdf\<lparr>step := 3, error := []\<rparr>) = Some small_pdf"
    and m: "inputMode (ready_state small_pdf\<lparr>step := 3, error := []\<rparr>) = PdfMode"
    by (simp_all add: ready_state_def initial_state_def)
  have tb: "try_block (axios_post configured (scripted [] None))
        (ready_state small_pdf\<lparr>step := 3, error := []\<rparr>)
      = (Some (lit ''Request failed with status code 500''),
         (ready_state small_pdf)\<lparr>step := 3, error := [],
            status := lit ''Uploading and analyzing PDF...''\<rparr>,
         [uploadPDF (Some small_pdf)])"
    by (simp add: try_block_def Let_def f m axios_upload_unreadable)
  have ne: "lit ''Request failed with status code 500'' \<noteq> []"
    by simp
  show ?thesis
    using m f by (simp add: startProcess_def tb ne status_500_text)
qed

lemma not_carried:
  "\<not> carries (lit ''No image data in response'')
        (lit ''An error occurred: Request failed with status code 500'')"
  "\<not> carries (lit ''Failed to parse PDF'')
        (lit ''An error occurred: Request failed with status code 500'')"
  by (simp_all add: lit_def)

text \<open>
  C4. The error text of a failed run does not preserve the message of the originating
  error. When the image model answers without an image, the image route throws
  \<open>No image data in response\<close> and answers with status 500 and that message in the \<open>error\<close>
  member of its reply; when the PDF cannot be read, the upload route answers with status
  500 and \<open>Failed to parse PDF\<close>. In both runs \<open>startProcess\<close> shows the \<open>message\<close> of the
  error that axios throws for the status, \<open>Request failed with status code 500\<close>, and
  nothing of the reply: the two failures end with the same text, which carries neither
  message.
\<close>

theorem stage_error_message_dropped:
  "fst (app configured no_image
         ((generateInfographic (Some (JStr (lit ''A poster about photosynthesis''))))
            \<lparr>req_path := lit ''/api/generate-infographic''\<rparr>))
     = \<lparr>status_code = 500,
        payload = ErrorJson (lit ''Failed to generate infographic: '')
                    (MessageOf (Error (lit ''No image data in response'')))\<rparr>
   \<and> fst (startProcess (axios_post configured no_image) (ready_state small_pdf))
       = (ready_state small_pdf)\<lparr>step := 3,
            status := lit ''Creating infographic with Nano Banana Pro...'',
            pdfText := Some (lit ''Photosynthesis turns light into chemical energy.''),
            error := lit ''An error occurred: Request failed with status code 500''\<rparr>
   \<and> fst (app configured (scripted [] None) (uploadPDF (Some small_pdf)))
       = \<lparr>status_code = 500, payload = ErrorJson (lit ''Failed to parse PDF'') NoDetail\<rparr>
   \<and> fst (startProcess (axios_post configured (scripted [] None)) (ready_state small_pdf))
       = (ready_state small_pdf)\<lparr>step := 3, status := lit ''Uploading and analyzing PDF...'',
            error := lit ''An error occurred: Request failed with status code 500''\<rparr>
   \<and> shown_error (fst (startProcess (axios_post configured no_image) (ready_state small_pdf)))
       = Some (lit ''An error occurred: Request failed with status code 500'')
   \<and> shown_error (fst (startProcess (axios_post configured (scripted [] None))
                          (ready_state small_pdf)))
       = Some (lit ''An error occurred: Request failed with status code 500'')
   \<and> \<not> carries (lit ''No image data in response'')
          (lit ''An error occurred: Request failed with status code 500'')
   \<and> \<not> carries (lit ''Failed to parse PDF'')
          (lit ''An error occurred: Request failed with status code 500'')"
proof -
  have p: "strip_origin (req_path (generateInfographic (Some (JStr (lit ''A poster about photosynthesis'')))))
      = lit ''/api/generate-infographic''"
    by (simp add: generateInfographic_def strip_origin_def API_URL_def Let_def lit_def)
  have t: "truthy (Some (JStr (lit ''A poster about photosynthesis'')))"
    by simp
  have 1: "fst (app configured no_image
         ((generateInfographic (Some (JStr (lit ''A poster about photosynthesis''))))
            \<lparr>req_path := lit ''/api/generate-infographic''\<rparr>))
     = \<lparr>status_code = 500,
        payload = ErrorJson (lit ''Failed to generate infographic: '')
                    (MessageOf (Error (lit ''No image data in response'')))\<rparr>"
    using image_reply_no_image [OF t] by (simp add: p error_reply_def)
  have 2: "fst (app configured (scripted [] None) (uploadPDF (Some small_pdf)))
       = \<lparr>status_code = 500, payload = ErrorJson (lit ''Failed to parse PDF'') NoDetail\<rparr>"
    by (simp add: upload_reply_unreadable error_reply_def)
  have e: "lit ''An error occurred: Request failed with status code 500'' \<noteq> []"
    by simp
  show ?thesis
    by (simp add: 1 2 no_image_run unreadable_run shown_error_def e not_carried)
qed

end
